theory Spec2Isabelle
  imports Main "HOL-Library.Word"
begin

unbundle bit_operations_syntax

section \<open>The IBS driver core (driver/ibs-core.c)\<close>

text \<open>
  A shallow embedding of the module orchestration code of the AMD Research IBS driver:
  the capability prober \<open>check_for_ibs_support\<close>, the per-device initialisers, the CPU
  hot-plug callback \<open>ibs_class_cpu_callback\<close>, and module load and unload
  (\<open>ibs_init\<close>, \<open>ibs_exit\<close>).

  The file is compiled in many configurations selected by \<open>LINUX_VERSION_CODE\<close>. The
  embedding follows the configuration for kernels from 3.15 on (every
  \<open>#if LINUX_VERSION_CODE >= \<dots>\<close> branch taken), the newest one the file supports.

  C \<open>int\<close> and \<open>unsigned int\<close> are \<open>32 word\<close>, \<open>unsigned long\<close> and pointers are
  \<open>64 word\<close> (x86-64), the \<open>__u8\<close> fields of \<open>struct cpuinfo_x86\<close> are \<open>8 word\<close>. Core
  identifiers are natural numbers (they are below \<open>NR_CPUS\<close>, so the conversions
  between \<open>unsigned int\<close>, \<open>int\<close> and \<open>unsigned long\<close> in the source keep their value).
  Log output (\<open>pr_info\<close>, \<open>pr_err\<close>, \<open>pr_warn\<close>) is not modelled.
\<close>

subsection \<open>Types\<close>

type_synonym c_int = "32 word"
type_synonym c_uint = "32 word"
type_synonym c_ulong = "64 word"
type_synonym pointer = "64 word"
type_synonym cpu_id = nat

text \<open>The two sampling flavors, \<open>IBS_OP\<close> and \<open>IBS_FETCH\<close> of ibs-uapi.h.\<close>

datatype flavor = IBS_OP | IBS_FETCH

datatype mutex = Unlocked | Locked

datatype irq_handler = no_handler | handle_ibs_work

record irq_work =
  flags :: c_ulong
  func :: irq_handler

text \<open>
  \<open>struct ibs_dev\<close> (ibs-structs.h), with the fields that this file writes. The record
  is extensible: the fields of the structure that this file never touches (the ring
  buffer and the sampling-control state) live in the \<open>more\<close> part of a device.
\<close>

record ibs_dev =
  read_lock :: mutex
  ctl_lock :: mutex
  readq :: "nat list"
  pollq :: "nat list"
  cpu :: cpu_id
  in_use :: c_int
  bottom_half :: irq_work
  dev_flavor :: flavor
  entry_size :: nat
  dev_ibs_fetch_supported :: c_int
  dev_ibs_op_supported :: c_int
  dev_ibs_brn_trgt_supported :: c_int
  dev_ibs_op_cnt_ext_supported :: c_int
  dev_ibs_rip_invalid_chk_supported :: c_int
  dev_ibs_op_brn_fuse_supported :: c_int
  dev_ibs_fetch_ctl_extd_supported :: c_int
  dev_ibs_op_data4_supported :: c_int
  dev_workaround_fam10h_err_420 :: c_int
  dev_workaround_fam15h_err_718 :: c_int
  dev_workaround_fam17h_m01h :: c_int

text \<open>
  Every call that leaves this file (into the kernel, or into the other files of the
  driver: ibs-utils.c, ibs-workarounds.c) is recorded as an event, in call order.
\<close>

datatype event =
    StartWorkaround cpu_id
  | StopWorkaround cpu_id
  | AllocPercpu flavor
  | FreePercpu flavor
  | InitWorkaroundStructs
  | FreeWorkaroundStructs
  | InitWorkaroundInitialize
  | SetupBuffer flavor cpu_id
  | FreeBuffer flavor cpu_id
  | RegisterChrdev
  | UnregisterChrdev
  | ClassCreate
  | ClassDestroy
  | NotifierRegisterBegin
  | NotifierRegisterDone
  | OnEachCpuSetupLvt
  | SetupLvt
  | DeviceCreate flavor cpu_id
  | DeviceDestroy flavor cpu_id
  | RegisterHotcpuNotifier
  | UnregisterHotcpuNotifier
  | RegisterNmiHandler
  | UnregisterNmiHandler
  | DisableOp cpu_id
  | DisableFetch cpu_id

text \<open>
  The environment of one run: what the processor reports, which cores exist, the sizes
  of the two sample records (\<open>sizeof(struct ibs_op)\<close> and \<open>sizeof(struct ibs_fetch)\<close>,
  whose declarations are in ibs-uapi.h), and what each fallible call returns.
\<close>

record env =
  x86_vendor :: "8 word"
  x86 :: "8 word"
  x86_model :: "8 word"
  cpuid_ecx_80000001 :: c_uint
  cpuid_eax_8000001B :: c_uint
  possible_cpus :: "cpu_id list"
  online_cpus :: "cpu_id list"
  sizeof_ibs_op :: nat
  sizeof_ibs_fetch :: nat
  alloc_percpu_ret :: "flavor \<Rightarrow> (cpu_id \<Rightarrow> ibs_dev) option"
  init_workaround_structs_ret :: c_int
  setup_ibs_buffer_ret :: "flavor \<Rightarrow> cpu_id \<Rightarrow> c_int"
  register_chrdev_ret :: c_int
  class_create_ret :: pointer
  device_create_ret :: "flavor \<Rightarrow> cpu_id \<Rightarrow> pointer"
  register_nmi_handler_ret :: c_int

text \<open>
  The state: the file's global variables, followed by the kernel resources the driver
  holds (device nodes and ring buffers, by flavor and core) and the trace of calls.
  A per-core storage variable is modelled by the storage it points to: \<open>None\<close> is the
  null pointer and also storage that has been released.
\<close>

record state =
  pcpu_op_dev :: "(cpu_id \<Rightarrow> ibs_dev) option"
  pcpu_fetch_dev :: "(cpu_id \<Rightarrow> ibs_dev) option"
  ibs_class :: pointer
  ibs_major :: c_int
  ibs_fetch_supported :: c_int
  ibs_op_supported :: c_int
  ibs_brn_trgt_supported :: c_int
  ibs_op_cnt_ext_supported :: c_int
  ibs_rip_invalid_chk_supported :: c_int
  ibs_op_brn_fuse_supported :: c_int
  ibs_fetch_ctl_extd_supported :: c_int
  ibs_op_data4_supported :: c_int
  workaround_fam10h_err_420 :: c_int
  workaround_fam15h_err_718 :: c_int
  workaround_fam17h_m01h :: c_int
  handles :: "(flavor \<times> cpu_id) set"
  buffers :: "(flavor \<times> cpu_id) set"
  trace :: "event list"

subsection \<open>Kernel constants and helpers\<close>

definition X86_VENDOR_AMD :: "8 word" where
  "X86_VENDOR_AMD = 2"

definition EINVAL :: c_int where
  "EINVAL = 22"

definition ENOMEM :: c_int where
  "ENOMEM = 12"

definition log_event :: "event \<Rightarrow> state \<Rightarrow> state" where
  "log_event ev s = s\<lparr>trace := trace s @ [ev]\<rparr>"

definition start_fam17h_m01h_static_workaround :: "cpu_id \<Rightarrow> state \<Rightarrow> state" where
  "start_fam17h_m01h_static_workaround c s = log_event (StartWorkaround c) s"

definition stop_fam17h_m01h_static_workaround :: "cpu_id \<Rightarrow> state \<Rightarrow> state" where
  "stop_fam17h_m01h_static_workaround c s = log_event (StopWorkaround c) s"

subsection \<open>The capability prober\<close>

text \<open>The loop \<open>for_each_online_cpu(cpu) start_fam17h_m01h_static_workaround(cpu)\<close>.\<close>

fun start_workaround_loop :: "cpu_id list \<Rightarrow> state \<Rightarrow> state" where
  "start_workaround_loop [] s = s"
| "start_workaround_loop (c # cs) s =
     start_workaround_loop cs (start_fam17h_m01h_static_workaround c s)"

text \<open>
  \<open>check_for_ibs_support\<close>, in three parts that follow the source top to bottom:
  the vendor and family checks with the two flag-only workarounds, the feature
  indicator of \<open>CPUID_Fn8000_0001_ECX\<close>, and the capability flags of
  \<open>CPUID_Fn8000_001B_EAX\<close>. The result is the returned \<open>int\<close> and the new state.
\<close>

definition check_capability_flags :: "env \<Rightarrow> state \<Rightarrow> c_int \<times> state" where
  "check_capability_flags e s =
     (let feature_id = cpuid_eax_8000001B e in
      if feature_id AND 1 = 0 then (- EINVAL, s)
      else
        let s1 = s\<lparr>ibs_fetch_supported := feature_id AND push_bit 1 1\<rparr>;
            s2 = s1\<lparr>ibs_op_supported := feature_id AND push_bit 2 1\<rparr>;
            s3 = s2\<lparr>ibs_op_supported := ibs_op_supported s2 OR (feature_id AND push_bit 3 1)\<rparr>;
            s4 = s3\<lparr>ibs_op_supported := ibs_op_supported s3 OR (feature_id AND push_bit 4 1)\<rparr>
        in if ibs_fetch_supported s4 = 0 \<and> ibs_op_supported s4 = 0 then (- EINVAL, s4)
           else (0, s4\<lparr>ibs_brn_trgt_supported := feature_id AND push_bit 5 1,
                       ibs_op_cnt_ext_supported := feature_id AND push_bit 6 1,
                       ibs_rip_invalid_chk_supported := feature_id AND push_bit 7 1,
                       ibs_op_brn_fuse_supported := feature_id AND push_bit 8 1,
                       ibs_fetch_ctl_extd_supported := feature_id AND push_bit 9 1,
                       ibs_op_data4_supported := feature_id AND push_bit 10 1\<rparr>))"

definition check_feature_indicator :: "env \<Rightarrow> state \<Rightarrow> c_int \<times> state" where
  "check_feature_indicator e s =
     (let feature_id = cpuid_ecx_80000001 e in
      if feature_id AND push_bit 10 1 = 0 \<and> workaround_fam17h_m01h s = 0 then
        (if x86 e = 0x17 \<and> x86_model e = 0x1 then
           check_capability_flags e
             (start_workaround_loop (online_cpus e) (s\<lparr>workaround_fam17h_m01h := 1\<rparr>))
         else (- EINVAL, s))
      else check_capability_flags e s)"

definition check_for_ibs_support :: "env \<Rightarrow> state \<Rightarrow> c_int \<times> state" where
  "check_for_ibs_support e s =
     (if x86_vendor e \<noteq> X86_VENDOR_AMD then (- EINVAL, s)
      else if x86 e < 0x10 \<or> x86 e = 0x11 then (- EINVAL, s)
      else
        let s1 = (if x86 e = 0x10 then s\<lparr>workaround_fam10h_err_420 := 1\<rparr> else s);
            s2 = (if x86 e = 0x15 \<and> x86_model e \<le> 0x1f
                  then s1\<lparr>workaround_fam15h_err_718 := 1\<rparr> else s1)
        in check_feature_indicator e s2)"

subsection \<open>Device initialisation\<close>

definition IRQ_WORK_LAZY :: c_ulong where
  "IRQ_WORK_LAZY = 4"

text \<open>
  \<open>init_ibs_dev(dev, cpu)\<close>: the device is passed and returned; the file's globals are
  read from the state.
\<close>

definition init_ibs_dev :: "state \<Rightarrow> ibs_dev \<Rightarrow> cpu_id \<Rightarrow> ibs_dev" where
  "init_ibs_dev s dev c =
     dev\<lparr>read_lock := Unlocked,
         readq := [],
         pollq := [],
         cpu := c,
         in_use := 0,
         bottom_half := \<lparr>flags = IRQ_WORK_LAZY, func = handle_ibs_work\<rparr>,
         dev_ibs_fetch_supported := ibs_fetch_supported s,
         dev_ibs_op_supported := ibs_op_supported s,
         dev_ibs_brn_trgt_supported := ibs_brn_trgt_supported s,
         dev_ibs_op_cnt_ext_supported := ibs_op_cnt_ext_supported s,
         dev_ibs_rip_invalid_chk_supported := ibs_rip_invalid_chk_supported s,
         dev_ibs_op_brn_fuse_supported := ibs_op_brn_fuse_supported s,
         dev_ibs_fetch_ctl_extd_supported := ibs_fetch_ctl_extd_supported s,
         dev_ibs_op_data4_supported := ibs_op_data4_supported s,
         dev_workaround_fam10h_err_420 := workaround_fam10h_err_420 s,
         dev_workaround_fam15h_err_718 := workaround_fam15h_err_718 s,
         dev_workaround_fam17h_m01h := workaround_fam17h_m01h s\<rparr>"

definition init_ibs_op_dev :: "env \<Rightarrow> state \<Rightarrow> ibs_dev \<Rightarrow> cpu_id \<Rightarrow> ibs_dev" where
  "init_ibs_op_dev e s dev c =
     (init_ibs_dev s dev c)\<lparr>dev_flavor := IBS_OP,
                             entry_size := sizeof_ibs_op e,
                             ctl_lock := Unlocked\<rparr>"

definition init_ibs_fetch_dev :: "env \<Rightarrow> state \<Rightarrow> ibs_dev \<Rightarrow> cpu_id \<Rightarrow> ibs_dev" where
  "init_ibs_fetch_dev e s dev c =
     (init_ibs_dev s dev c)\<lparr>dev_flavor := IBS_FETCH,
                             entry_size := sizeof_ibs_fetch e,
                             ctl_lock := Unlocked\<rparr>"

subsection \<open>Device nodes\<close>

text \<open>
  \<open>IS_ERR\<close> and \<open>PTR_ERR\<close> of linux/err.h: the top 4095 addresses encode an errno.
  \<open>ibs_device_create\<close> returns \<open>PTR_ERR(dev)\<close>, a \<open>long\<close>, as an \<open>int\<close>.
\<close>

definition MAX_ERRNO :: c_ulong where
  "MAX_ERRNO = 4095"

definition IS_ERR :: "pointer \<Rightarrow> bool" where
  "IS_ERR p = (p \<ge> - MAX_ERRNO)"

definition PTR_ERR :: "pointer \<Rightarrow> c_ulong" where
  "PTR_ERR p = p"

text \<open>
  \<open>device_create\<close> and \<open>device_destroy\<close> of the kernel, on the device number
  \<open>MKDEV(ibs_major, IBS_MINOR(flavor, cpu))\<close>, which is identified here with the pair
  of flavor and core. Destroying a node that does not exist does nothing.
\<close>

definition device_create :: "env \<Rightarrow> flavor \<Rightarrow> cpu_id \<Rightarrow> state \<Rightarrow> pointer \<times> state" where
  "device_create e f c s =
     (let dev = device_create_ret e f c;
          s1 = (if IS_ERR dev then s else s\<lparr>handles := insert (f, c) (handles s)\<rparr>)
      in (dev, log_event (DeviceCreate f c) s1))"

definition device_destroy :: "flavor \<Rightarrow> cpu_id \<Rightarrow> state \<Rightarrow> state" where
  "device_destroy f c s =
     log_event (DeviceDestroy f c) (s\<lparr>handles := handles s - {(f, c)}\<rparr>)"

definition ibs_device_create :: "env \<Rightarrow> flavor \<Rightarrow> cpu_id \<Rightarrow> state \<Rightarrow> c_int \<times> state" where
  "ibs_device_create e f c s =
     (let (dev, s1) = device_create e f c s
      in (if IS_ERR dev then ucast (PTR_ERR dev) else 0, s1))"

definition ibs_device_destroy :: "flavor \<Rightarrow> cpu_id \<Rightarrow> state \<Rightarrow> state" where
  "ibs_device_destroy f c s = device_destroy f c s"

subsection \<open>The hot-plug callback\<close>

text \<open>The notifier actions of linux/cpu.h and the return codes of linux/notifier.h.\<close>

definition CPU_ONLINE :: c_ulong where "CPU_ONLINE = 0x0002"
definition CPU_UP_PREPARE :: c_ulong where "CPU_UP_PREPARE = 0x0003"
definition CPU_UP_CANCELED :: c_ulong where "CPU_UP_CANCELED = 0x0004"
definition CPU_DOWN_PREPARE :: c_ulong where "CPU_DOWN_PREPARE = 0x0005"
definition CPU_DEAD :: c_ulong where "CPU_DEAD = 0x0007"
definition CPU_TASKS_FROZEN :: c_ulong where "CPU_TASKS_FROZEN = 0x0010"

definition CPU_UP_CANCELED_FROZEN :: c_ulong where
  "CPU_UP_CANCELED_FROZEN = CPU_UP_CANCELED OR CPU_TASKS_FROZEN"

definition NOTIFY_OK :: c_int where "NOTIFY_OK = 0x0001"
definition NOTIFY_STOP_MASK :: c_int where "NOTIFY_STOP_MASK = 0x8000"

definition notifier_from_errno :: "c_int \<Rightarrow> c_int" where
  "notifier_from_errno err =
     (if err \<noteq> 0 then NOTIFY_STOP_MASK OR (NOTIFY_OK - err) else NOTIFY_OK)"

definition notifier_to_errno :: "c_int \<Rightarrow> c_int" where
  "notifier_to_errno ret =
     (let r = ret AND NOT NOTIFY_STOP_MASK
      in if NOTIFY_OK <s r then NOTIFY_OK - r else 0)"

text \<open>
  \<open>ibs_setup_lvt\<close> programs the local APIC of the executing core; it is recorded as a
  call. So are the two routines of ibs-utils.c that switch sampling off on a core.
\<close>

definition ibs_setup_lvt :: "state \<Rightarrow> state" where
  "ibs_setup_lvt s = log_event SetupLvt s"

definition disable_ibs_op_on_cpu :: "cpu_id \<Rightarrow> state \<Rightarrow> state" where
  "disable_ibs_op_on_cpu c s = log_event (DisableOp c) s"

definition disable_ibs_fetch_on_cpu :: "cpu_id \<Rightarrow> state \<Rightarrow> state" where
  "disable_ibs_fetch_on_cpu c s = log_event (DisableFetch c) s"

text \<open>
  \<open>ibs_class_cpu_callback(nfb, action, hcpu)\<close>: the \<open>switch\<close> is a chain of tests on
  \<open>action\<close>, an action with no \<open>case\<close> falls through with \<open>err = 0\<close>.
\<close>

definition ibs_class_cpu_callback ::
  "env \<Rightarrow> c_ulong \<Rightarrow> cpu_id \<Rightarrow> state \<Rightarrow> c_int \<times> state" where
  "ibs_class_cpu_callback e action c s =
     (let (err, s') =
        (if action = CPU_UP_PREPARE then
           (let (err1, s1) = ibs_device_create e IBS_OP c s in
            if err1 \<noteq> 0 then (err1, s1)
            else
              let (err2, s2) = ibs_device_create e IBS_FETCH c s1 in
              if err2 \<noteq> 0 then (err2, ibs_device_destroy IBS_OP c s2) else (err2, s2))
         else if action = CPU_ONLINE then
           (let s1 = ibs_setup_lvt s in
            (0, if workaround_fam17h_m01h s1 \<noteq> 0
                then start_fam17h_m01h_static_workaround c s1 else s1))
         else if action = CPU_UP_CANCELED \<or> action = CPU_UP_CANCELED_FROZEN
                 \<or> action = CPU_DEAD then
           (0, ibs_device_destroy IBS_FETCH c (ibs_device_destroy IBS_OP c s))
         else if action = CPU_DOWN_PREPARE then
           (let s1 = disable_ibs_op_on_cpu c s;
                s2 = disable_ibs_fetch_on_cpu c s1
            in (0, if workaround_fam17h_m01h s2 \<noteq> 0
                   then stop_fam17h_m01h_static_workaround c s2 else s2))
         else (0, s))
      in (notifier_from_errno err, s'))"

subsection \<open>Calls made by module load and unload\<close>

text \<open>
  The kernel calls are named as in the source, without the leading underscores of
  \<open>__register_chrdev\<close>, \<open>__unregister_chrdev\<close>, \<open>__register_hotcpu_notifier\<close> and
  \<open>__unregister_hotcpu_notifier\<close>.

  \<open>alloc_percpu(struct ibs_dev)\<close> returns the new storage, or \<open>None\<close> for the null
  pointer; \<open>free_percpu\<close> releases the storage of one flavor.
\<close>

definition alloc_percpu ::
  "env \<Rightarrow> flavor \<Rightarrow> state \<Rightarrow> (cpu_id \<Rightarrow> ibs_dev) option \<times> state" where
  "alloc_percpu e f s = (alloc_percpu_ret e f, log_event (AllocPercpu f) s)"

definition free_percpu :: "flavor \<Rightarrow> state \<Rightarrow> state" where
  "free_percpu f s =
     log_event (FreePercpu f)
       (case f of IBS_OP \<Rightarrow> s\<lparr>pcpu_op_dev := None\<rparr>
                | IBS_FETCH \<Rightarrow> s\<lparr>pcpu_fetch_dev := None\<rparr>)"

definition init_workaround_structs :: "env \<Rightarrow> state \<Rightarrow> c_int \<times> state" where
  "init_workaround_structs e s =
     (init_workaround_structs_ret e, log_event InitWorkaroundStructs s)"

definition init_workaround_initialize :: "state \<Rightarrow> state" where
  "init_workaround_initialize s = log_event InitWorkaroundInitialize s"

definition free_workaround_structs :: "state \<Rightarrow> state" where
  "free_workaround_structs s = log_event FreeWorkaroundStructs s"

text \<open>
  \<open>setup_ibs_buffer\<close> and \<open>free_ibs_buffer\<close> of ibs-utils.c, on the device of one
  flavor and core: a successful setup leaves the device with a ring buffer, freeing
  removes it and does nothing when there is none.
\<close>

definition setup_ibs_buffer :: "env \<Rightarrow> flavor \<Rightarrow> cpu_id \<Rightarrow> state \<Rightarrow> c_int \<times> state" where
  "setup_ibs_buffer e f c s =
     (let r = setup_ibs_buffer_ret e f c;
          s1 = (if r = 0 then s\<lparr>buffers := insert (f, c) (buffers s)\<rparr> else s)
      in (r, log_event (SetupBuffer f c) s1))"

definition free_ibs_buffer :: "flavor \<Rightarrow> cpu_id \<Rightarrow> state \<Rightarrow> state" where
  "free_ibs_buffer f c s =
     log_event (FreeBuffer f c) (s\<lparr>buffers := buffers s - {(f, c)}\<rparr>)"

definition register_chrdev :: "env \<Rightarrow> state \<Rightarrow> c_int \<times> state" where
  "register_chrdev e s = (register_chrdev_ret e, log_event RegisterChrdev s)"

definition unregister_chrdev :: "state \<Rightarrow> state" where
  "unregister_chrdev s = log_event UnregisterChrdev s"

definition class_create :: "env \<Rightarrow> state \<Rightarrow> pointer \<times> state" where
  "class_create e s = (class_create_ret e, log_event ClassCreate s)"

definition class_destroy :: "state \<Rightarrow> state" where
  "class_destroy s = log_event ClassDestroy s"

definition cpu_notifier_register_begin :: "state \<Rightarrow> state" where
  "cpu_notifier_register_begin s = log_event NotifierRegisterBegin s"

definition cpu_notifier_register_done :: "state \<Rightarrow> state" where
  "cpu_notifier_register_done s = log_event NotifierRegisterDone s"

definition on_each_cpu_ibs_setup_lvt :: "state \<Rightarrow> state" where
  "on_each_cpu_ibs_setup_lvt s = log_event OnEachCpuSetupLvt s"

definition register_hotcpu_notifier :: "state \<Rightarrow> state" where
  "register_hotcpu_notifier s = log_event RegisterHotcpuNotifier s"

definition unregister_hotcpu_notifier :: "state \<Rightarrow> state" where
  "unregister_hotcpu_notifier s = log_event UnregisterHotcpuNotifier s"

definition register_nmi_handler :: "env \<Rightarrow> state \<Rightarrow> c_int \<times> state" where
  "register_nmi_handler e s = (register_nmi_handler_ret e, log_event RegisterNmiHandler s)"

definition unregister_nmi_handler :: "state \<Rightarrow> state" where
  "unregister_nmi_handler s = log_event UnregisterNmiHandler s"

text \<open>
  \<open>init_ibs_op_dev(per_cpu_ptr(pcpu_op_dev, cpu), cpu)\<close> and its fetch twin, as updates
  of the storage of one core.
\<close>

definition init_op_dev_on_cpu :: "env \<Rightarrow> cpu_id \<Rightarrow> state \<Rightarrow> state" where
  "init_op_dev_on_cpu e c s =
     s\<lparr>pcpu_op_dev :=
         map_option (\<lambda>st. st(c := init_ibs_op_dev e s (st c) c)) (pcpu_op_dev s)\<rparr>"

definition init_fetch_dev_on_cpu :: "env \<Rightarrow> cpu_id \<Rightarrow> state \<Rightarrow> state" where
  "init_fetch_dev_on_cpu e c s =
     s\<lparr>pcpu_fetch_dev :=
         map_option (\<lambda>st. st(c := init_ibs_fetch_dev e s (st c) c)) (pcpu_fetch_dev s)\<rparr>"

subsection \<open>Module load\<close>

text \<open>
  Each \<open>for_each\<close> loop of \<open>ibs_init\<close> is a recursive function. A loop that can
  leave through a \<open>goto\<close> returns whether it ran to its end, the value of \<open>err\<close>,
  and the state. The two callbacks that
  \<open>ibs_init\<close> stores in the class (\<open>devnode\<close>, \<open>dev_uevent\<close>) only name the device
  nodes and set their mode; they are left out.
\<close>

fun init_devices_loop ::
  "env \<Rightarrow> cpu_id list \<Rightarrow> c_int \<Rightarrow> state \<Rightarrow> bool \<times> c_int \<times> state" where
  "init_devices_loop e [] err s = (True, err, s)"
| "init_devices_loop e (c # cs) err s =
     (let s1 = init_op_dev_on_cpu e c s;
          (err1, s2) = setup_ibs_buffer e IBS_OP c s1
      in if err1 \<noteq> 0 then (False, err1, s2)
         else
           let s3 = init_fetch_dev_on_cpu e c s2;
               (err2, s4) = setup_ibs_buffer e IBS_FETCH c s3
           in if err2 \<noteq> 0 then (False, err2, s4)
              else init_devices_loop e cs err2 (init_workaround_initialize s4))"

fun create_handles_loop ::
  "env \<Rightarrow> cpu_id list \<Rightarrow> c_int \<Rightarrow> state \<Rightarrow> bool \<times> c_int \<times> state" where
  "create_handles_loop e [] err s = (True, err, s)"
| "create_handles_loop e (c # cs) err s =
     (let (err1, s1) = (if ibs_op_supported s \<noteq> 0
                        then ibs_device_create e IBS_OP c s else (err, s))
      in if err1 \<noteq> 0 then (False, err1, s1)
         else
           let (err2, s2) = (if ibs_fetch_supported s1 \<noteq> 0
                             then ibs_device_create e IBS_FETCH c s1 else (err1, s1))
           in if err2 \<noteq> 0 then (False, err2, s2)
              else create_handles_loop e cs err2 s2)"

fun destroy_handles_loop :: "cpu_id list \<Rightarrow> state \<Rightarrow> state" where
  "destroy_handles_loop [] s = s"
| "destroy_handles_loop (c # cs) s =
     destroy_handles_loop cs
       (ibs_device_destroy IBS_FETCH c (ibs_device_destroy IBS_OP c s))"

fun free_buffers_loop :: "cpu_id list \<Rightarrow> state \<Rightarrow> state" where
  "free_buffers_loop [] s = s"
| "free_buffers_loop (c # cs) s =
     free_buffers_loop cs (free_ibs_buffer IBS_OP c (free_ibs_buffer IBS_FETCH c s))"

text \<open>The exit labels of \<open>ibs_init\<close>, each falling through to the next.\<close>

definition out_buffers :: "env \<Rightarrow> c_int \<Rightarrow> state \<Rightarrow> c_int \<times> state" where
  "out_buffers e err s =
     (err, free_percpu IBS_OP (free_percpu IBS_FETCH (free_buffers_loop (possible_cpus e) s)))"

definition out_chrdev :: "env \<Rightarrow> c_int \<Rightarrow> state \<Rightarrow> c_int \<times> state" where
  "out_chrdev e err s = out_buffers e err (unregister_chrdev s)"

definition out_class :: "env \<Rightarrow> c_int \<Rightarrow> state \<Rightarrow> c_int \<times> state" where
  "out_class e err s =
     out_chrdev e err
       (cpu_notifier_register_done
         (unregister_hotcpu_notifier
           (class_destroy (destroy_handles_loop (online_cpus e) s))))"

definition out_device :: "env \<Rightarrow> c_int \<Rightarrow> state \<Rightarrow> c_int \<times> state" where
  "out_device e err s = out_class e err (cpu_notifier_register_begin s)"

definition err_metadata :: "state \<Rightarrow> c_int \<times> state" where
  "err_metadata s = (- ENOMEM, s)"

definition ibs_init :: "env \<Rightarrow> state \<Rightarrow> c_int \<times> state" where
  "ibs_init e s =
     (let (err, s1) = check_for_ibs_support e s in
      if err <s 0 then (err, s1)
      else
        let (p_op, s2) = alloc_percpu e IBS_OP s1;
            s3 = s2\<lparr>pcpu_op_dev := p_op\<rparr>
        in if pcpu_op_dev s3 = None then err_metadata s3
        else
          let (p_fetch, s4) = alloc_percpu e IBS_FETCH s3;
              s5 = s4\<lparr>pcpu_fetch_dev := p_fetch\<rparr>
          in if pcpu_fetch_dev s5 = None then err_metadata (free_percpu IBS_OP s5)
          else
            let (r, s6) = init_workaround_structs e s5
            in if r \<noteq> 0
               then err_metadata (free_percpu IBS_FETCH (free_percpu IBS_OP s6))
            else
              let (done, err7, s7) = init_devices_loop e (possible_cpus e) err s6
              in if \<not> done then out_buffers e err7 s7
              else
                let (major, s8) = register_chrdev e s7;
                    s9 = s8\<lparr>ibs_major := major\<rparr>
                in if ibs_major s9 <s 0 then out_buffers e err7 s9
                else
                  let (cls, s10) = class_create e s9;
                      s11 = s10\<lparr>ibs_class := cls\<rparr>
                  in if IS_ERR (ibs_class s11)
                     then out_chrdev e (ucast (PTR_ERR (ibs_class s11))) s11
                  else
                    let s12 = on_each_cpu_ibs_setup_lvt (cpu_notifier_register_begin s11);
                        (done, err13, s13) = create_handles_loop e (online_cpus e) err7 s12
                    in if \<not> done then out_class e err13 s13
                    else
                      let s14 = cpu_notifier_register_done (register_hotcpu_notifier s13);
                          (err15, s15) = register_nmi_handler e s14
                      in if err15 \<noteq> 0 then out_device e err15 s15
                         else (err15, s15))"

subsection \<open>Module unload\<close>

fun exit_destroy_loop :: "cpu_id list \<Rightarrow> state \<Rightarrow> state" where
  "exit_destroy_loop [] s = s"
| "exit_destroy_loop (c # cs) s =
     (let s1 = (if ibs_op_supported s \<noteq> 0 then ibs_device_destroy IBS_OP c s else s);
          s2 = (if ibs_fetch_supported s1 \<noteq> 0 then ibs_device_destroy IBS_FETCH c s1 else s1)
      in exit_destroy_loop cs s2)"

fun exit_free_loop :: "cpu_id list \<Rightarrow> state \<Rightarrow> state" where
  "exit_free_loop [] s = s"
| "exit_free_loop (c # cs) s =
     (let s1 = free_ibs_buffer IBS_OP c (free_ibs_buffer IBS_FETCH c s);
          s2 = (if workaround_fam17h_m01h s1 \<noteq> 0
                then stop_fam17h_m01h_static_workaround c s1 else s1)
      in exit_free_loop cs s2)"

definition ibs_exit :: "env \<Rightarrow> state \<Rightarrow> state" where
  "ibs_exit e s =
     (let s1 = unregister_nmi_handler s;
          s2 = cpu_notifier_register_begin s1;
          s3 = exit_destroy_loop (online_cpus e) s2;
          s4 = class_destroy s3;
          s5 = unregister_chrdev s4;
          s6 = unregister_hotcpu_notifier s5;
          s7 = cpu_notifier_register_done s6;
          s8 = exit_free_loop (possible_cpus e) s7;
          s9 = free_percpu IBS_FETCH s8;
          s10 = free_percpu IBS_OP s9
      in free_workaround_structs s10)"

text \<open>
  The state when the module is loaded: the globals as their initialisers leave them,
  no device node, no ring buffer, nothing called yet.
\<close>

definition module_load_state :: state where
  "module_load_state =
     \<lparr>pcpu_op_dev = None, pcpu_fetch_dev = None, ibs_class = 0, ibs_major = 0,
      ibs_fetch_supported = 0, ibs_op_supported = 0, ibs_brn_trgt_supported = 0,
      ibs_op_cnt_ext_supported = 0, ibs_rip_invalid_chk_supported = 0,
      ibs_op_brn_fuse_supported = 0, ibs_fetch_ctl_extd_supported = 0,
      ibs_op_data4_supported = 0, workaround_fam10h_err_420 = 0,
      workaround_fam15h_err_718 = 0, workaround_fam17h_m01h = 0,
      handles = {}, buffers = {}, trace = []\<rparr>"

subsection \<open>Example machines\<close>

text \<open>
  Concrete environments on which the theorems below are exercised. The storage that
  \<open>alloc_percpu\<close> hands out is zero-filled; the record sizes are sample values.
\<close>

definition zeroed_dev :: ibs_dev where
  "zeroed_dev =
     \<lparr>read_lock = Unlocked, ctl_lock = Unlocked, readq = [], pollq = [], cpu = 0,
      in_use = 0, bottom_half = \<lparr>flags = 0, func = no_handler\<rparr>, dev_flavor = IBS_OP,
      entry_size = 0, dev_ibs_fetch_supported = 0, dev_ibs_op_supported = 0,
      dev_ibs_brn_trgt_supported = 0, dev_ibs_op_cnt_ext_supported = 0,
      dev_ibs_rip_invalid_chk_supported = 0, dev_ibs_op_brn_fuse_supported = 0,
      dev_ibs_fetch_ctl_extd_supported = 0, dev_ibs_op_data4_supported = 0,
      dev_workaround_fam10h_err_420 = 0, dev_workaround_fam15h_err_718 = 0,
      dev_workaround_fam17h_m01h = 0\<rparr>"

text \<open>
  A two-core Family 15h Model 02h processor with the feature indicator set and the
  capability flags of bits 0 to 7; every kernel call succeeds, the major number is 250.
\<close>

definition fam15h_env :: env where
  "fam15h_env =
     \<lparr>x86_vendor = 2, x86 = 0x15, x86_model = 0x02,
      cpuid_ecx_80000001 = 0x400, cpuid_eax_8000001B = 0xFF,
      possible_cpus = [0, 1], online_cpus = [0, 1],
      sizeof_ibs_op = 120, sizeof_ibs_fetch = 80,
      alloc_percpu_ret = (\<lambda>f. Some (\<lambda>c. zeroed_dev)),
      init_workaround_structs_ret = 0,
      setup_ibs_buffer_ret = (\<lambda>f c. 0),
      register_chrdev_ret = 250,
      class_create_ret = 0xFFFF888000100000,
      device_create_ret = (\<lambda>f c. 0xFFFF888000200000),
      register_nmi_handler_ret = 0\<rparr>"

text \<open>A Family 17h Model 01h processor whose feature indicator (bit 10) is clear.\<close>

definition fam17h_env :: env where
  "fam17h_env =
     fam15h_env\<lparr>x86 := 0x17, x86_model := 0x1, cpuid_ecx_80000001 := 0,
                cpuid_eax_8000001B := 0x3FF\<rparr>"

text \<open>A Family 16h processor whose feature indicator (bit 10) is clear.\<close>

definition fam16h_no_indicator_env :: env where
  "fam16h_no_indicator_env = fam15h_env\<lparr>x86 := 0x16, cpuid_ecx_80000001 := 0\<rparr>"

text \<open>A processor that reports no capability flags at all.\<close>

definition no_sampling_env :: env where
  "no_sampling_env = fam15h_env\<lparr>cpuid_eax_8000001B := 0\<rparr>"

text \<open>A processor that supports fetch sampling only (bits 0 and 1).\<close>

definition fetch_only_env :: env where
  "fetch_only_env = fam15h_env\<lparr>cpuid_eax_8000001B := 0x3\<rparr>"

text \<open>The kernel refuses the character-device region with \<open>-EBUSY\<close>.\<close>

definition chrdev_fail_env :: env where
  "chrdev_fail_env = fam15h_env\<lparr>register_chrdev_ret := - 16\<rparr>"

text \<open>Creating a device node fails with \<open>-ENOMEM\<close>: for op nodes, and for fetch nodes.\<close>

definition op_create_fail_env :: env where
  "op_create_fail_env =
     fam15h_env\<lparr>device_create_ret :=
       (\<lambda>f c. if f = IBS_OP then - 12 else 0xFFFF888000200000)\<rparr>"

definition fetch_create_fail_env :: env where
  "fetch_create_fail_env =
     fam15h_env\<lparr>device_create_ret :=
       (\<lambda>f c. if f = IBS_FETCH then - 12 else 0xFFFF888000200000)\<rparr>"

text \<open>
  The machine that supports fetch sampling only, with core 1 offline while the module
  is loaded; and its state after the load, and after core 1 has then been prepared.
\<close>

definition fetch_only_boot_env :: env where
  "fetch_only_boot_env = fetch_only_env\<lparr>online_cpus := [0]\<rparr>"

definition fetch_only_booted :: state where
  "fetch_only_booted = snd (ibs_init fetch_only_boot_env module_load_state)"

definition fetch_only_hotplugged :: state where
  "fetch_only_hotplugged =
     snd (ibs_class_cpu_callback fetch_only_env CPU_UP_PREPARE 1 fetch_only_booted)"

text \<open>The state of three of the example machines once the module is loaded.\<close>

definition fam15h_loaded :: state where
  "fam15h_loaded = snd (ibs_init fam15h_env module_load_state)"

definition fam17h_loaded :: state where
  "fam17h_loaded = snd (ibs_init fam17h_env module_load_state)"

definition fetch_only_loaded :: state where
  "fetch_only_loaded = snd (ibs_init fetch_only_env module_load_state)"

subsection \<open>Notions used in the statements\<close>

text \<open>
  The capability set and the workaround set, process-wide and as copied into a device,
  each as the list of its flags in declaration order.
\<close>

definition capability_set :: "state \<Rightarrow> c_int list" where
  "capability_set s =
     [ibs_fetch_supported s, ibs_op_supported s, ibs_brn_trgt_supported s,
      ibs_op_cnt_ext_supported s, ibs_rip_invalid_chk_supported s,
      ibs_op_brn_fuse_supported s, ibs_fetch_ctl_extd_supported s,
      ibs_op_data4_supported s]"

definition workaround_set :: "state \<Rightarrow> c_int list" where
  "workaround_set s =
     [workaround_fam10h_err_420 s, workaround_fam15h_err_718 s, workaround_fam17h_m01h s]"

definition dev_capability_set :: "ibs_dev \<Rightarrow> c_int list" where
  "dev_capability_set d =
     [dev_ibs_fetch_supported d, dev_ibs_op_supported d, dev_ibs_brn_trgt_supported d,
      dev_ibs_op_cnt_ext_supported d, dev_ibs_rip_invalid_chk_supported d,
      dev_ibs_op_brn_fuse_supported d, dev_ibs_fetch_ctl_extd_supported d,
      dev_ibs_op_data4_supported d]"

definition dev_workaround_set :: "ibs_dev \<Rightarrow> c_int list" where
  "dev_workaround_set d =
     [dev_workaround_fam10h_err_420 d, dev_workaround_fam15h_err_718 d,
      dev_workaround_fam17h_m01h d]"

text \<open>A flavor is in the capability set when its flag is nonzero, as the C tests read.\<close>

fun flavor_supported :: "flavor \<Rightarrow> state \<Rightarrow> bool" where
  "flavor_supported IBS_OP s = (ibs_op_supported s \<noteq> 0)"
| "flavor_supported IBS_FETCH s = (ibs_fetch_supported s \<noteq> 0)"

text \<open>
  What C8 asks of the device of flavor \<open>f\<close> on core \<open>c\<close>, with respect to the
  process-wide flags of a state \<open>s\<close>; and the per-core storage of a flavor.
\<close>

definition dev_initialised :: "env \<Rightarrow> state \<Rightarrow> flavor \<Rightarrow> cpu_id \<Rightarrow> ibs_dev \<Rightarrow> bool" where
  "dev_initialised e s f c d =
     (cpu d = c \<and> dev_flavor d = f \<and>
      entry_size d = (case f of IBS_OP \<Rightarrow> sizeof_ibs_op e | IBS_FETCH \<Rightarrow> sizeof_ibs_fetch e) \<and>
      in_use d = 0 \<and>
      dev_capability_set d = capability_set s \<and>
      dev_workaround_set d = workaround_set s)"

fun pcpu_dev :: "flavor \<Rightarrow> state \<Rightarrow> (cpu_id \<Rightarrow> ibs_dev) option" where
  "pcpu_dev IBS_OP s = pcpu_op_dev s"
| "pcpu_dev IBS_FETCH s = pcpu_fetch_dev s"

text \<open>The storage of flavor \<open>f\<close> exists and its device on core \<open>c\<close> is initialised.\<close>

definition dev_ready :: "env \<Rightarrow> flavor \<Rightarrow> cpu_id \<Rightarrow> state \<Rightarrow> bool" where
  "dev_ready e f c s =
     (case pcpu_dev f s of None \<Rightarrow> False | Some st \<Rightarrow> dev_initialised e s f c (st c))"

text \<open>The calls made between two states.\<close>

definition calls_since :: "state \<Rightarrow> state \<Rightarrow> event list" where
  "calls_since s s' = drop (length (trace s)) (trace s')"





text \<open>
  A relation between a state of \<open>ibs_init\<close> and a later one, for the proofs: the two
  flavor flags are the same, the trace has only grown, and every \<open>device_create\<close> call
  made in between is for an online core and a flavor in the capability set.
\<close>

definition creates_only_supported :: "env \<Rightarrow> state \<Rightarrow> state \<Rightarrow> bool" where
  "creates_only_supported e s s' =
     (ibs_op_supported s' = ibs_op_supported s \<and>
      ibs_fetch_supported s' = ibs_fetch_supported s \<and>
      take (length (trace s)) (trace s') = trace s \<and>
      list_all (\<lambda>ev. case ev of
                  DeviceCreate f c \<Rightarrow> c \<in> set (online_cpus e) \<and> flavor_supported f s
                | _ \<Rightarrow> True)
        (calls_since s s'))"

section \<open>Properties\<close>

subsection \<open>Definitions to unfold\<close>

lemmas prim_defs = log_event_def start_fam17h_m01h_static_workaround_def
  stop_fam17h_m01h_static_workaround_def device_create_def device_destroy_def
  ibs_device_create_def ibs_device_destroy_def ibs_setup_lvt_def disable_ibs_op_on_cpu_def
  disable_ibs_fetch_on_cpu_def alloc_percpu_def free_percpu_def init_workaround_structs_def
  init_workaround_initialize_def free_workaround_structs_def setup_ibs_buffer_def
  free_ibs_buffer_def register_chrdev_def unregister_chrdev_def class_create_def
  class_destroy_def cpu_notifier_register_begin_def cpu_notifier_register_done_def
  on_each_cpu_ibs_setup_lvt_def register_hotcpu_notifier_def unregister_hotcpu_notifier_def
  register_nmi_handler_def unregister_nmi_handler_def init_op_dev_on_cpu_def
  init_fetch_dev_on_cpu_def

lemmas const_defs = X86_VENDOR_AMD_def EINVAL_def ENOMEM_def IRQ_WORK_LAZY_def MAX_ERRNO_def
  IS_ERR_def PTR_ERR_def CPU_ONLINE_def CPU_UP_PREPARE_def CPU_UP_CANCELED_def
  CPU_DOWN_PREPARE_def CPU_DEAD_def CPU_TASKS_FROZEN_def CPU_UP_CANCELED_FROZEN_def
  NOTIFY_OK_def NOTIFY_STOP_MASK_def

lemmas env_defs = zeroed_dev_def fam15h_env_def fam17h_env_def fam16h_no_indicator_env_def
  no_sampling_env_def fetch_only_env_def chrdev_fail_env_def op_create_fail_env_def
  fetch_create_fail_env_def fetch_only_boot_env_def

lemmas probe_defs = check_for_ibs_support_def check_feature_indicator_def
  check_capability_flags_def

lemmas dev_defs = init_ibs_dev_def init_ibs_op_dev_def init_ibs_fetch_dev_def

lemmas init_defs = ibs_init_def out_buffers_def out_chrdev_def out_class_def out_device_def
  err_metadata_def

subsection \<open>The capability prober\<close>

lemma and_pow2_eq_0_iff:
  fixes w :: "32 word"
  shows "(w AND 1 = 0) = (\<not> bit w 0)" "(w AND 2 = 0) = (\<not> bit w 1)"
    "(w AND 4 = 0) = (\<not> bit w 2)" "(w AND 8 = 0) = (\<not> bit w 3)"
    "(w AND 16 = 0) = (\<not> bit w 4)" "(w AND 1024 = 0) = (\<not> bit w 10)"
  using and_exp_eq_0_iff_not_bit [of w 0] and_exp_eq_0_iff_not_bit [of w 1]
    and_exp_eq_0_iff_not_bit [of w 2] and_exp_eq_0_iff_not_bit [of w 3]
    and_exp_eq_0_iff_not_bit [of w 4] and_exp_eq_0_iff_not_bit [of w 10]
  by simp_all

lemma neg_EINVAL_negative: "- EINVAL <s 0" "- EINVAL \<noteq> 0"
  by (simp_all add: EINVAL_def word_sless_alt)

lemma start_workaround_loop_eq:
  "start_workaround_loop cs s = s\<lparr>trace := trace s @ map StartWorkaround cs\<rparr>"
  by (induction cs arbitrary: s)
    (simp_all add: start_fam17h_m01h_static_workaround_def log_event_def)

lemma check_capability_flags_result:
  "fst (check_capability_flags e s) =
     (if bit (cpuid_eax_8000001B e) 0 \<and>
         (bit (cpuid_eax_8000001B e) 1 \<or> bit (cpuid_eax_8000001B e) 2
          \<or> bit (cpuid_eax_8000001B e) 3 \<or> bit (cpuid_eax_8000001B e) 4)
      then 0 else - EINVAL)"
  by (auto simp: check_capability_flags_def Let_def or_eq_0_iff and_pow2_eq_0_iff)

lemma check_capability_flags_frame:
  "trace (snd (check_capability_flags e s)) = trace s"
  "pcpu_op_dev (snd (check_capability_flags e s)) = pcpu_op_dev s"
  "pcpu_fetch_dev (snd (check_capability_flags e s)) = pcpu_fetch_dev s"
  "handles (snd (check_capability_flags e s)) = handles s"
  "buffers (snd (check_capability_flags e s)) = buffers s"
  "workaround_fam10h_err_420 (snd (check_capability_flags e s)) = workaround_fam10h_err_420 s"
  "workaround_fam15h_err_718 (snd (check_capability_flags e s)) = workaround_fam15h_err_718 s"
  "workaround_fam17h_m01h (snd (check_capability_flags e s)) = workaround_fam17h_m01h s"
  by (simp_all add: check_capability_flags_def Let_def)

lemma check_capability_flags_op:
  assumes "fst (check_capability_flags e s) = 0"
  shows "ibs_op_supported (snd (check_capability_flags e s)) =
           ((cpuid_eax_8000001B e AND push_bit 2 1) OR (cpuid_eax_8000001B e AND push_bit 3 1))
             OR (cpuid_eax_8000001B e AND push_bit 4 1)"
  using assms
  by (auto simp: check_capability_flags_def Let_def EINVAL_def split: if_splits)

lemma check_for_ibs_support_frame:
  "pcpu_op_dev (snd (check_for_ibs_support e s)) = pcpu_op_dev s"
  "pcpu_fetch_dev (snd (check_for_ibs_support e s)) = pcpu_fetch_dev s"
  "handles (snd (check_for_ibs_support e s)) = handles s"
  "buffers (snd (check_for_ibs_support e s)) = buffers s"
  by (simp_all add: check_for_ibs_support_def check_feature_indicator_def Let_def
      check_capability_flags_frame start_workaround_loop_eq)

lemma check_for_ibs_support_trace:
  "trace (snd (check_for_ibs_support e s)) = trace s \<or>
   trace (snd (check_for_ibs_support e s)) = trace s @ map StartWorkaround (online_cpus e)"
  by (simp add: check_for_ibs_support_def check_feature_indicator_def Let_def
      check_capability_flags_frame start_workaround_loop_eq)

lemma check_for_ibs_support_result:
  "fst (check_for_ibs_support e s) = 0 \<or> fst (check_for_ibs_support e s) = - EINVAL"
  by (simp add: check_for_ibs_support_def check_feature_indicator_def Let_def
      check_capability_flags_result)

lemma check_for_ibs_support_success:
  assumes "fst (check_for_ibs_support e s) = 0"
  shows "\<exists>t. check_for_ibs_support e s = check_capability_flags e t"
  using assms
  by (auto simp: check_for_ibs_support_def check_feature_indicator_def Let_def
      EINVAL_def split: if_splits)

lemma check_for_ibs_support_unsupported:
  assumes "\<not> bit (cpuid_eax_8000001B e) 0 \<or>
           (\<not> bit (cpuid_eax_8000001B e) 1 \<and> \<not> bit (cpuid_eax_8000001B e) 2
            \<and> \<not> bit (cpuid_eax_8000001B e) 3 \<and> \<not> bit (cpuid_eax_8000001B e) 4)"
  shows "fst (check_for_ibs_support e s) = - EINVAL"
  using assms
  by (auto simp add: check_for_ibs_support_def check_feature_indicator_def Let_def
      check_capability_flags_result)

lemma ibs_init_check_failed:
  assumes "fst (check_for_ibs_support e s) <s 0"
  shows "ibs_init e s = check_for_ibs_support e s"
  using assms by (simp add: ibs_init_def split_beta)

subsection \<open>C9: op sampling is the disjunction of three feature bits\<close>

text \<open>
  C9. When the prober succeeds, it has marked op sampling as supported (the flag
  \<open>ibs_op_supported\<close> is nonzero) if and only if at least one of bits 2, 3 and 4 of
  \<open>CPUID_Fn8000_001B_EAX\<close> is set: the flag is the three op feature bits of the
  register, OR-ed together.
\<close>

theorem op_supported_iff_any_op_bit:
  assumes "fst (check_for_ibs_support e s) = 0"
  shows "(ibs_op_supported (snd (check_for_ibs_support e s)) \<noteq> 0) =
           (bit (cpuid_eax_8000001B e) 2 \<or> bit (cpuid_eax_8000001B e) 3
              \<or> bit (cpuid_eax_8000001B e) 4)
       \<and> ibs_op_supported (snd (check_for_ibs_support e s)) =
           ((cpuid_eax_8000001B e AND push_bit 2 1) OR (cpuid_eax_8000001B e AND push_bit 3 1))
             OR (cpuid_eax_8000001B e AND push_bit 4 1)"
proof -
  from assms obtain t where t: "check_for_ibs_support e s = check_capability_flags e t"
    using check_for_ibs_support_success by blast
  with assms have "fst (check_capability_flags e t) = 0"
    by simp
  then have v: "ibs_op_supported (snd (check_capability_flags e t)) =
           ((cpuid_eax_8000001B e AND push_bit 2 1) OR (cpuid_eax_8000001B e AND push_bit 3 1))
             OR (cpuid_eax_8000001B e AND push_bit 4 1)"
    by (rule check_capability_flags_op)
  then have "(ibs_op_supported (snd (check_capability_flags e t)) \<noteq> 0) =
           (bit (cpuid_eax_8000001B e) 2 \<or> bit (cpuid_eax_8000001B e) 3
              \<or> bit (cpuid_eax_8000001B e) 4)"
    by (auto simp add: or_eq_0_iff and_pow2_eq_0_iff)
  with v show ?thesis
    unfolding t by (rule conjI [rotated])
qed

text \<open>
  On a machine that reports bit 4 but neither bit 2 nor bit 3, the prober succeeds and
  op sampling is marked as supported.
\<close>

theorem op_supported_iff_any_op_bit_witness:
  "fst (check_for_ibs_support (fam15h_env\<lparr>cpuid_eax_8000001B := 0x11\<rparr>) module_load_state) = 0
   \<and> ibs_op_supported (snd (check_for_ibs_support (fam15h_env\<lparr>cpuid_eax_8000001B := 0x11\<rparr>)
         module_load_state)) = 0x10
   \<and> bit (0x11 :: 32 word) 4 \<and> \<not> bit (0x11 :: 32 word) 2 \<and> \<not> bit (0x11 :: 32 word) 3"
proof -
  have h: "fst (check_for_ibs_support (fam15h_env\<lparr>cpuid_eax_8000001B := 0x11\<rparr>)
             module_load_state) = 0"
    by (simp add: probe_defs env_defs const_defs module_load_state_def Let_def)
  have b: "bit (0x11 :: 32 word) 4" "\<not> bit (0x11 :: 32 word) 2" "\<not> bit (0x11 :: 32 word) 3"
    by (simp_all add: bit_iff_odd)
  have "ibs_op_supported (snd (check_for_ibs_support (fam15h_env\<lparr>cpuid_eax_8000001B := 0x11\<rparr>)
         module_load_state)) =
      ((cpuid_eax_8000001B (fam15h_env\<lparr>cpuid_eax_8000001B := 0x11\<rparr>) AND push_bit 2 1)
        OR (cpuid_eax_8000001B (fam15h_env\<lparr>cpuid_eax_8000001B := 0x11\<rparr>) AND push_bit 3 1))
        OR (cpuid_eax_8000001B (fam15h_env\<lparr>cpuid_eax_8000001B := 0x11\<rparr>) AND push_bit 4 1)"
    using op_supported_iff_any_op_bit [OF h] by (rule conjunct2)
  then have "ibs_op_supported (snd (check_for_ibs_support
      (fam15h_env\<lparr>cpuid_eax_8000001B := 0x11\<rparr>) module_load_state)) = 0x10"
    by simp
  with h b show ?thesis by simp
qed

subsection \<open>C1: no sampling support, no module and no storage\<close>

text \<open>
  C1. If the capability flags are not valid (bit 0 clear) or neither fetch sampling
  (bit 1) nor op sampling (bits 2 to 4) is reported, the capability check returns a
  negative value, \<open>ibs_init\<close> returns that value, which is \<open>-EINVAL\<close>, and nothing has
  been allocated: both per-core storage variables and the set of ring buffers are as
  before, and neither \<open>alloc_percpu\<close> nor \<open>setup_ibs_buffer\<close> has been called.
\<close>

theorem init_fails_on_unsupported_hardware:
  assumes "\<not> bit (cpuid_eax_8000001B e) 0 \<or>
           (\<not> bit (cpuid_eax_8000001B e) 1 \<and> \<not> bit (cpuid_eax_8000001B e) 2
            \<and> \<not> bit (cpuid_eax_8000001B e) 3 \<and> \<not> bit (cpuid_eax_8000001B e) 4)"
  shows "fst (check_for_ibs_support e s) <s 0
       \<and> fst (ibs_init e s) = fst (check_for_ibs_support e s)
       \<and> fst (ibs_init e s) = - EINVAL
       \<and> pcpu_op_dev (snd (ibs_init e s)) = pcpu_op_dev s
       \<and> pcpu_fetch_dev (snd (ibs_init e s)) = pcpu_fetch_dev s
       \<and> buffers (snd (ibs_init e s)) = buffers s
       \<and> (\<forall>f. AllocPercpu f \<notin> set (calls_since s (snd (ibs_init e s))))
       \<and> (\<forall>f c. SetupBuffer f c \<notin> set (calls_since s (snd (ibs_init e s))))"
proof -
  have r: "fst (check_for_ibs_support e s) = - EINVAL"
    using assms by (rule check_for_ibs_support_unsupported)
  then have neg: "fst (check_for_ibs_support e s) <s 0"
    by (simp add: neg_EINVAL_negative)
  then have eq: "ibs_init e s = check_for_ibs_support e s"
    by (rule ibs_init_check_failed)
  have calls: "calls_since s (snd (ibs_init e s)) = [] \<or>
      calls_since s (snd (ibs_init e s)) = map StartWorkaround (online_cpus e)"
    using check_for_ibs_support_trace [of e s] by (auto simp add: eq calls_since_def)
  have "\<forall>f. AllocPercpu f \<notin> set (calls_since s (snd (ibs_init e s)))"
    using calls by auto
  moreover have "\<forall>f c. SetupBuffer f c \<notin> set (calls_since s (snd (ibs_init e s)))"
    using calls by auto
  ultimately show ?thesis
    using r neg by (simp add: eq check_for_ibs_support_frame)
qed

text \<open>A processor whose capability leaf is zero: the load fails with \<open>-22\<close>.\<close>

theorem init_fails_on_unsupported_hardware_witness:
  "\<not> bit (cpuid_eax_8000001B no_sampling_env) 0
   \<and> fst (ibs_init no_sampling_env module_load_state) = - 22
   \<and> pcpu_op_dev (snd (ibs_init no_sampling_env module_load_state)) = None
   \<and> pcpu_fetch_dev (snd (ibs_init no_sampling_env module_load_state)) = None
   \<and> buffers (snd (ibs_init no_sampling_env module_load_state)) = {}"
proof -
  have b: "\<not> bit (cpuid_eax_8000001B no_sampling_env) 0"
    by (simp add: env_defs)
  then have h: "\<not> bit (cpuid_eax_8000001B no_sampling_env) 0 \<or>
           (\<not> bit (cpuid_eax_8000001B no_sampling_env) 1
            \<and> \<not> bit (cpuid_eax_8000001B no_sampling_env) 2
            \<and> \<not> bit (cpuid_eax_8000001B no_sampling_env) 3
            \<and> \<not> bit (cpuid_eax_8000001B no_sampling_env) 4)"
    by (rule disjI1)
  note w = init_fails_on_unsupported_hardware [OF h, of module_load_state]
  from w have "fst (ibs_init no_sampling_env module_load_state) = - EINVAL"
    by blast
  then have "fst (ibs_init no_sampling_env module_load_state) = - 22"
    by (simp add: EINVAL_def)
  moreover from w
  have "pcpu_op_dev (snd (ibs_init no_sampling_env module_load_state))
          = pcpu_op_dev module_load_state"
    "pcpu_fetch_dev (snd (ibs_init no_sampling_env module_load_state))
          = pcpu_fetch_dev module_load_state"
    "buffers (snd (ibs_init no_sampling_env module_load_state)) = buffers module_load_state"
    by blast+
  ultimately show ?thesis using b by (simp add: module_load_state_def)
qed

subsection \<open>C7: the Family 17h Model 01h processor without the feature indicator\<close>

lemma check_feature_indicator_fam17h:
  assumes "\<not> bit (cpuid_ecx_80000001 e) 10" and "workaround_fam17h_m01h s = 0"
    and "x86 e = 0x17" and "x86_model e = 0x1"
  shows "check_feature_indicator e s =
           check_capability_flags e
             (start_workaround_loop (online_cpus e) (s\<lparr>workaround_fam17h_m01h := 1\<rparr>))"
  using assms by (simp add: check_feature_indicator_def Let_def and_pow2_eq_0_iff)

lemma check_feature_indicator_other:
  assumes "\<not> bit (cpuid_ecx_80000001 e) 10" and "workaround_fam17h_m01h s = 0"
    and "\<not> (x86 e = 0x17 \<and> x86_model e = 0x1)"
  shows "check_feature_indicator e s = (- EINVAL, s)"
  using assms by (auto simp add: check_feature_indicator_def Let_def and_pow2_eq_0_iff)

text \<open>
  C7. Let bit 10 of \<open>CPUID_Fn8000_0001_ECX\<close> be clear when the module is loaded (the
  workaround flag still has its initial value 0). On an AMD processor of family 0x17,
  model 0x1 the prober does not fail there: it sets \<open>workaround_fam17h_m01h\<close>, starts the
  static workaround on every online core, in order, and goes on to the capability
  flags, whose check alone decides the result. On any other processor it returns
  \<open>-EINVAL\<close>, with the flag unset and no call made.
\<close>

theorem fam17h_m01h_without_feature_indicator:
  assumes "\<not> bit (cpuid_ecx_80000001 e) 10" and "workaround_fam17h_m01h s = 0"
  shows "(x86_vendor e = X86_VENDOR_AMD \<and> x86 e = 0x17 \<and> x86_model e = 0x1 \<longrightarrow>
            check_for_ibs_support e s =
              check_capability_flags e
                (start_workaround_loop (online_cpus e) (s\<lparr>workaround_fam17h_m01h := 1\<rparr>))
          \<and> workaround_fam17h_m01h (snd (check_for_ibs_support e s)) = 1
          \<and> calls_since s (snd (check_for_ibs_support e s))
               = map StartWorkaround (online_cpus e)
          \<and> (fst (check_for_ibs_support e s) = 0) =
               (bit (cpuid_eax_8000001B e) 0 \<and>
                 (bit (cpuid_eax_8000001B e) 1 \<or> bit (cpuid_eax_8000001B e) 2
                  \<or> bit (cpuid_eax_8000001B e) 3 \<or> bit (cpuid_eax_8000001B e) 4)))
       \<and> (\<not> (x86 e = 0x17 \<and> x86_model e = 0x1) \<longrightarrow>
            fst (check_for_ibs_support e s) = - EINVAL
          \<and> workaround_fam17h_m01h (snd (check_for_ibs_support e s)) = 0
          \<and> calls_since s (snd (check_for_ibs_support e s)) = [])"
proof (intro conjI impI)
  assume a: "x86_vendor e = X86_VENDOR_AMD \<and> x86 e = 0x17 \<and> x86_model e = 0x1"
  then have "check_for_ibs_support e s = check_feature_indicator e s"
    by (simp add: check_for_ibs_support_def)
  with a assms show eq: "check_for_ibs_support e s =
              check_capability_flags e
                (start_workaround_loop (online_cpus e) (s\<lparr>workaround_fam17h_m01h := 1\<rparr>))"
    by (simp add: check_feature_indicator_fam17h)
  show "workaround_fam17h_m01h (snd (check_for_ibs_support e s)) = 1"
    by (simp add: eq check_capability_flags_frame start_workaround_loop_eq)
  show "calls_since s (snd (check_for_ibs_support e s)) = map StartWorkaround (online_cpus e)"
    by (simp add: eq check_capability_flags_frame start_workaround_loop_eq calls_since_def)
  show "(fst (check_for_ibs_support e s) = 0) =
               (bit (cpuid_eax_8000001B e) 0 \<and>
                 (bit (cpuid_eax_8000001B e) 1 \<or> bit (cpuid_eax_8000001B e) 2
                  \<or> bit (cpuid_eax_8000001B e) 3 \<or> bit (cpuid_eax_8000001B e) 4))"
    by (auto simp add: eq check_capability_flags_result EINVAL_def)
next
  assume b: "\<not> (x86 e = 0x17 \<and> x86_model e = 0x1)"
  have alt: "check_for_ibs_support e s = (- EINVAL, s) \<or>
        (\<exists>t. check_for_ibs_support e s = check_feature_indicator e t \<and> trace t = trace s
            \<and> workaround_fam17h_m01h t = workaround_fam17h_m01h s)"
    by (auto simp add: check_for_ibs_support_def Let_def)
  have fail: "\<And>t. workaround_fam17h_m01h t = 0 \<Longrightarrow> check_feature_indicator e t = (- EINVAL, t)"
    using assms(1) b by (simp add: check_feature_indicator_other)
  from alt fail assms(2)
  show "fst (check_for_ibs_support e s) = - EINVAL"
    by auto
  from alt fail assms(2)
  show "workaround_fam17h_m01h (snd (check_for_ibs_support e s)) = 0"
    by auto
  from alt fail assms(2)
  show "calls_since s (snd (check_for_ibs_support e s)) = []"
    by (auto simp add: calls_since_def)
qed

text \<open>
  The Family 17h Model 01h example passes and starts the workaround on both cores; the
  Family 16h example without the indicator is refused.
\<close>

theorem fam17h_m01h_without_feature_indicator_witness:
  "\<not> bit (cpuid_ecx_80000001 fam17h_env) 10
   \<and> fst (check_for_ibs_support fam17h_env module_load_state) = 0
   \<and> workaround_fam17h_m01h (snd (check_for_ibs_support fam17h_env module_load_state)) = 1
   \<and> calls_since module_load_state (snd (check_for_ibs_support fam17h_env module_load_state))
        = [StartWorkaround 0, StartWorkaround 1]
   \<and> \<not> bit (cpuid_ecx_80000001 fam16h_no_indicator_env) 10
   \<and> fst (check_for_ibs_support fam16h_no_indicator_env module_load_state) = - 22
   \<and> calls_since module_load_state
        (snd (check_for_ibs_support fam16h_no_indicator_env module_load_state)) = []"
proof -
  have h17: "\<not> bit (cpuid_ecx_80000001 fam17h_env) 10"
    and h16: "\<not> bit (cpuid_ecx_80000001 fam16h_no_indicator_env) 10"
    and w0: "workaround_fam17h_m01h module_load_state = 0"
    by (simp_all add: env_defs module_load_state_def)
  have m17: "x86_vendor fam17h_env = X86_VENDOR_AMD \<and> x86 fam17h_env = 0x17
      \<and> x86_model fam17h_env = 0x1"
    and m16: "\<not> (x86 fam16h_no_indicator_env = 0x17 \<and> x86_model fam16h_no_indicator_env = 0x1)"
    by (simp_all add: env_defs const_defs)
  have bits: "bit (cpuid_eax_8000001B fam17h_env) 0" "bit (cpuid_eax_8000001B fam17h_env) 1"
    by (simp_all add: env_defs bit_iff_odd)
  note a = fam17h_m01h_without_feature_indicator [OF h17 w0]
  note b = fam17h_m01h_without_feature_indicator [OF h16 w0]
  from a m17 bits have "fst (check_for_ibs_support fam17h_env module_load_state) = 0"
    by blast
  moreover from a m17
  have "workaround_fam17h_m01h (snd (check_for_ibs_support fam17h_env module_load_state)) = 1"
    by blast
  moreover from a m17
  have "calls_since module_load_state (snd (check_for_ibs_support fam17h_env module_load_state))
        = map StartWorkaround (online_cpus fam17h_env)"
    by blast
  then have "calls_since module_load_state
      (snd (check_for_ibs_support fam17h_env module_load_state))
        = [StartWorkaround 0, StartWorkaround 1]"
    by (simp add: env_defs)
  moreover from b m16
  have "fst (check_for_ibs_support fam16h_no_indicator_env module_load_state) = - EINVAL"
    by blast
  then have "fst (check_for_ibs_support fam16h_no_indicator_env module_load_state) = - 22"
    by (simp add: EINVAL_def)
  moreover from b m16
  have "calls_since module_load_state
        (snd (check_for_ibs_support fam16h_no_indicator_env module_load_state)) = []"
    by blast
  ultimately show ?thesis using h17 h16 by simp
qed

subsection \<open>Error pointers and notifier return codes\<close>

lemma IS_ERR_unat: "IS_ERR p = (2 ^ 64 - 4095 \<le> unat p)"
  by (simp add: IS_ERR_def MAX_ERRNO_def word_le_nat_alt)

lemma unat_ucast_64_32: "unat (ucast (p :: 64 word) :: 32 word) = unat p mod 2 ^ 32"
  by (simp add: unsigned_ucast_eq take_bit_eq_mod)

lemma mod_top_range:
  fixes n :: nat
  assumes "2 ^ 64 - 4095 \<le> n" "n < 2 ^ 64"
  shows "2 ^ 32 - 4095 \<le> n mod 2 ^ 32"
proof -
  define r where "r = n - 18446744069414584320"
  have n: "n = r + 4294967295 * 4294967296"
    using assms by (simp add: r_def)
  have r: "4294963201 \<le> r" "r < 4294967296"
    using assms by (simp_all add: r_def)
  have "n mod 4294967296 = r mod 4294967296"
    unfolding n by (rule mod_mult_self1)
  also have "\<dots> = r" using r by simp
  finally show ?thesis using r by simp
qed

lemma IS_ERR_errno_range:
  assumes "IS_ERR p"
  shows "2 ^ 32 - 4095 \<le> unat (ucast (PTR_ERR p) :: 32 word)"
proof -
  have lo: "2 ^ 64 - 4095 \<le> unat p" using assms by (simp add: IS_ERR_unat)
  have hi: "unat p < 2 ^ 64" using unsigned_less [of p] by simp
  show ?thesis
    using mod_top_range [OF lo hi] by (simp add: PTR_ERR_def unat_ucast_64_32)
qed

lemma errno_nonzero:
  fixes err :: "32 word"
  assumes "2 ^ 32 - 4095 \<le> unat err"
  shows "err \<noteq> 0"
  using assms by auto

lemma one_minus_errno_unat:
  fixes err :: "32 word"
  assumes "2 ^ 32 - 4095 \<le> unat err"
  shows "2 \<le> unat (1 - err) \<and> unat (1 - err) \<le> 4096"
proof -
  have hi: "unat err < 2 ^ 32" using unsigned_less [of err] by simp
  have "unat (1 - err) = 2 ^ 32 + 1 - unat err"
    using assms by (simp add: unat_sub_if_size word_size)
  then show ?thesis using assms hi by linarith
qed

lemma small_word_bit15:
  fixes x :: "32 word"
  assumes "unat x \<le> 4096"
  shows "\<not> bit x 15"
proof -
  have "unat x < 2 ^ 15" using assms by simp
  then have "take_bit 15 (unat x) = unat x" by (rule take_bit_nat_eq_self)
  then have "bit (unat x) 15 = bit (take_bit 15 (unat x)) 15" by simp
  then have "\<not> bit (unat x) 15" by (simp add: bit_take_bit_iff)
  then show ?thesis by (simp add: bit_unsigned_iff)
qed

lemma stop_mask_strip:
  fixes x :: "32 word"
  assumes "unat x \<le> 4096"
  shows "(NOTIFY_STOP_MASK OR x) AND NOT NOTIFY_STOP_MASK = x"
proof (rule bit_word_eqI)
  fix n assume "n < LENGTH(32)"
  have p: "NOTIFY_STOP_MASK = (2 ^ 15 :: 32 word)"
    by (simp add: NOTIFY_STOP_MASK_def)
  have m: "bit (NOTIFY_STOP_MASK :: 32 word) n = (n = 15)"
    unfolding p bit_exp_iff by auto
  show "bit ((NOTIFY_STOP_MASK OR x) AND NOT NOTIFY_STOP_MASK) n = bit x n"
    using small_word_bit15 [OF assms] \<open>n < LENGTH(32)\<close>
    by (auto simp add: m bit_and_iff bit_or_iff bit_not_iff)
qed

lemma small_word_sless:
  fixes x :: "32 word"
  assumes "2 \<le> unat x" "unat x \<le> 4096"
  shows "NOTIFY_OK <s x"
proof -
  have u: "uint x = int (unat x)" by (rule uint_nat)
  have "- 2147483648 \<le> uint x" "uint x < 2147483648"
    unfolding u using assms by linarith+
  then have "- (2 ^ 31) \<le> uint x" "uint x < 2 ^ 31"
    by simp_all
  then have "signed_take_bit 31 (uint x) = uint x"
    by (rule signed_take_bit_int_eq_self)
  then have "sint x = uint x"
    by (simp add: sint_uint)
  moreover have "1 < uint x"
    unfolding u using assms by linarith
  ultimately show ?thesis by (simp add: word_sless_alt NOTIFY_OK_def)
qed

lemma notifier_roundtrip:
  fixes err :: "32 word"
  assumes "2 ^ 32 - 4095 \<le> unat err"
  shows "notifier_to_errno (notifier_from_errno err) = err"
proof -
  note r = one_minus_errno_unat [OF assms]
  have nz: "err \<noteq> 0" using assms by (rule errno_nonzero)
  have s: "(NOTIFY_STOP_MASK OR (NOTIFY_OK - err)) AND NOT NOTIFY_STOP_MASK = NOTIFY_OK - err"
    using r by (simp add: stop_mask_strip NOTIFY_OK_def)
  have l: "NOTIFY_OK <s NOTIFY_OK - err"
    using r small_word_sless [of "1 - err"] by (simp add: NOTIFY_OK_def)
  show ?thesis
    using nz l by (simp add: notifier_to_errno_def notifier_from_errno_def Let_def s)
qed

lemma notifier_from_errno_stop:
  assumes "err \<noteq> 0"
  shows "bit (notifier_from_errno err) 15" "notifier_from_errno err \<noteq> NOTIFY_OK"
proof -
  have p: "NOTIFY_STOP_MASK = (2 ^ 15 :: 32 word)"
    by (simp add: NOTIFY_STOP_MASK_def)
  have m: "bit (NOTIFY_STOP_MASK :: 32 word) 15"
    unfolding p bit_exp_iff by simp
  then show b: "bit (notifier_from_errno err) 15"
    using assms by (simp add: notifier_from_errno_def bit_or_iff)
  have "\<not> bit (NOTIFY_OK :: 32 word) 15" by (simp add: NOTIFY_OK_def bit_1_iff)
  with b show "notifier_from_errno err \<noteq> NOTIFY_OK" by auto
qed


lemma IS_ERR_notifier:
  assumes "IS_ERR p"
  shows "notifier_to_errno (notifier_from_errno (ucast (PTR_ERR p))) = ucast (PTR_ERR p)"
    and "(ucast (PTR_ERR p) :: 32 word) \<noteq> 0"
    and "notifier_from_errno (ucast (PTR_ERR p)) \<noteq> NOTIFY_OK"
proof -
  note r = IS_ERR_errno_range [OF assms]
  show "notifier_to_errno (notifier_from_errno (ucast (PTR_ERR p))) = ucast (PTR_ERR p)"
    using r by (rule notifier_roundtrip)
  show nz: "(ucast (PTR_ERR p) :: 32 word) \<noteq> 0"
    using r by (rule errno_nonzero)
  show "notifier_from_errno (ucast (PTR_ERR p)) \<noteq> NOTIFY_OK"
    using nz by (rule notifier_from_errno_stop)
qed

lemma callback_prepare_op_fails:
  assumes "IS_ERR (device_create_ret e IBS_OP c)"
  shows "ibs_class_cpu_callback e CPU_UP_PREPARE c s =
           (notifier_from_errno (ucast (PTR_ERR (device_create_ret e IBS_OP c))),
            s\<lparr>trace := trace s @ [DeviceCreate IBS_OP c]\<rparr>)"
  using assms IS_ERR_notifier(2) [OF assms]
  by (simp add: ibs_class_cpu_callback_def ibs_device_create_def device_create_def
      log_event_def Let_def)

lemma callback_prepare_fetch_fails:
  assumes "\<not> IS_ERR (device_create_ret e IBS_OP c)"
    and "IS_ERR (device_create_ret e IBS_FETCH c)"
  shows "ibs_class_cpu_callback e CPU_UP_PREPARE c s =
           (notifier_from_errno (ucast (PTR_ERR (device_create_ret e IBS_FETCH c))),
            s\<lparr>handles := handles s - {(IBS_OP, c)},
              trace := trace s @ [DeviceCreate IBS_OP c, DeviceCreate IBS_FETCH c,
                                  DeviceDestroy IBS_OP c]\<rparr>)"
  using assms IS_ERR_notifier(2) [OF assms(2)]
  by (simp add: ibs_class_cpu_callback_def ibs_device_create_def ibs_device_destroy_def
      device_create_def device_destroy_def log_event_def Let_def)

lemma callback_prepare_ok:
  assumes "\<not> IS_ERR (device_create_ret e IBS_OP c)"
    and "\<not> IS_ERR (device_create_ret e IBS_FETCH c)"
  shows "ibs_class_cpu_callback e CPU_UP_PREPARE c s =
           (NOTIFY_OK,
            s\<lparr>handles := insert (IBS_FETCH, c) (insert (IBS_OP, c) (handles s)),
              trace := trace s @ [DeviceCreate IBS_OP c, DeviceCreate IBS_FETCH c]\<rparr>)"
  using assms
  by (simp add: ibs_class_cpu_callback_def ibs_device_create_def
      device_create_def log_event_def Let_def notifier_from_errno_def)

lemma callback_remove:
  assumes "action = CPU_UP_CANCELED \<or> action = CPU_UP_CANCELED_FROZEN \<or> action = CPU_DEAD"
  shows "ibs_class_cpu_callback e action c s =
           (NOTIFY_OK,
            s\<lparr>handles := handles s - {(IBS_OP, c), (IBS_FETCH, c)},
              trace := trace s @ [DeviceDestroy IBS_OP c, DeviceDestroy IBS_FETCH c]\<rparr>)"
proof -
  have "action \<noteq> CPU_UP_PREPARE" "action \<noteq> CPU_ONLINE"
    using assms by (auto simp add: const_defs)
  moreover have "handles s - {(IBS_OP, c)} - {(IBS_FETCH, c)}
      = handles s - {(IBS_OP, c), (IBS_FETCH, c)}"
    by auto
  ultimately show ?thesis
    using assms
    by (simp add: ibs_class_cpu_callback_def ibs_device_destroy_def device_destroy_def
        log_event_def notifier_from_errno_def)
qed

lemma callback_down_prepare:
  "ibs_class_cpu_callback e CPU_DOWN_PREPARE c s =
     (NOTIFY_OK,
      s\<lparr>trace := trace s @ [DisableOp c, DisableFetch c]
               @ (if workaround_fam17h_m01h s \<noteq> 0 then [StopWorkaround c] else [])\<rparr>)"
  by (simp add: ibs_class_cpu_callback_def const_defs disable_ibs_op_on_cpu_def
      disable_ibs_fetch_on_cpu_def stop_fam17h_m01h_static_workaround_def log_event_def
      notifier_from_errno_def)

subsection \<open>C3: a failed hot-plug prepare leaves no handle behind\<close>

text \<open>
  C3. On \<open>CPU_UP_PREPARE\<close> for any core: if creating the op handle fails, the callback
  reports that error (the notifier code decodes to the nonzero errno and is not
  \<open>NOTIFY_OK\<close>), only the one creation was attempted and the set of handles is
  unchanged. If the op handle is created and creating the fetch handle fails, the
  callback reports that error, and the op handle is destroyed again: afterwards the
  core has no op handle and no handle has been added.
\<close>

theorem prepare_failure_rolls_back:
  "(IS_ERR (device_create_ret e IBS_OP c) \<longrightarrow>
      notifier_to_errno (fst (ibs_class_cpu_callback e CPU_UP_PREPARE c s))
        = ucast (PTR_ERR (device_create_ret e IBS_OP c))
    \<and> notifier_to_errno (fst (ibs_class_cpu_callback e CPU_UP_PREPARE c s)) \<noteq> 0
    \<and> fst (ibs_class_cpu_callback e CPU_UP_PREPARE c s) \<noteq> NOTIFY_OK
    \<and> handles (snd (ibs_class_cpu_callback e CPU_UP_PREPARE c s)) = handles s
    \<and> calls_since s (snd (ibs_class_cpu_callback e CPU_UP_PREPARE c s))
        = [DeviceCreate IBS_OP c])
   \<and> (\<not> IS_ERR (device_create_ret e IBS_OP c) \<and> IS_ERR (device_create_ret e IBS_FETCH c) \<longrightarrow>
      notifier_to_errno (fst (ibs_class_cpu_callback e CPU_UP_PREPARE c s))
        = ucast (PTR_ERR (device_create_ret e IBS_FETCH c))
    \<and> notifier_to_errno (fst (ibs_class_cpu_callback e CPU_UP_PREPARE c s)) \<noteq> 0
    \<and> fst (ibs_class_cpu_callback e CPU_UP_PREPARE c s) \<noteq> NOTIFY_OK
    \<and> (IBS_OP, c) \<notin> handles (snd (ibs_class_cpu_callback e CPU_UP_PREPARE c s))
    \<and> handles (snd (ibs_class_cpu_callback e CPU_UP_PREPARE c s)) = handles s - {(IBS_OP, c)}
    \<and> calls_since s (snd (ibs_class_cpu_callback e CPU_UP_PREPARE c s))
        = [DeviceCreate IBS_OP c, DeviceCreate IBS_FETCH c, DeviceDestroy IBS_OP c])"
proof (intro conjI impI)
  assume a: "IS_ERR (device_create_ret e IBS_OP c)"
  note cb = callback_prepare_op_fails [OF a, of s]
  show "notifier_to_errno (fst (ibs_class_cpu_callback e CPU_UP_PREPARE c s))
        = ucast (PTR_ERR (device_create_ret e IBS_OP c))"
    by (simp add: cb IS_ERR_notifier(1) [OF a])
  then show "notifier_to_errno (fst (ibs_class_cpu_callback e CPU_UP_PREPARE c s)) \<noteq> 0"
    by (simp add: IS_ERR_notifier(2) [OF a])
  show "fst (ibs_class_cpu_callback e CPU_UP_PREPARE c s) \<noteq> NOTIFY_OK"
    by (simp add: cb IS_ERR_notifier(3) [OF a])
  show "handles (snd (ibs_class_cpu_callback e CPU_UP_PREPARE c s)) = handles s"
    by (simp add: cb)
  show "calls_since s (snd (ibs_class_cpu_callback e CPU_UP_PREPARE c s))
        = [DeviceCreate IBS_OP c]"
    by (simp add: cb calls_since_def)
next
  assume "\<not> IS_ERR (device_create_ret e IBS_OP c) \<and> IS_ERR (device_create_ret e IBS_FETCH c)"
  then have a: "\<not> IS_ERR (device_create_ret e IBS_OP c)"
    and b: "IS_ERR (device_create_ret e IBS_FETCH c)"
    by simp_all
  note cb = callback_prepare_fetch_fails [OF a b, of s]
  show "notifier_to_errno (fst (ibs_class_cpu_callback e CPU_UP_PREPARE c s))
        = ucast (PTR_ERR (device_create_ret e IBS_FETCH c))"
    by (simp add: cb IS_ERR_notifier(1) [OF b])
  then show "notifier_to_errno (fst (ibs_class_cpu_callback e CPU_UP_PREPARE c s)) \<noteq> 0"
    by (simp add: IS_ERR_notifier(2) [OF b])
  show "fst (ibs_class_cpu_callback e CPU_UP_PREPARE c s) \<noteq> NOTIFY_OK"
    by (simp add: cb IS_ERR_notifier(3) [OF b])
  show "(IBS_OP, c) \<notin> handles (snd (ibs_class_cpu_callback e CPU_UP_PREPARE c s))"
    by (simp add: cb)
  show "handles (snd (ibs_class_cpu_callback e CPU_UP_PREPARE c s)) = handles s - {(IBS_OP, c)}"
    by (simp add: cb)
  show "calls_since s (snd (ibs_class_cpu_callback e CPU_UP_PREPARE c s))
        = [DeviceCreate IBS_OP c, DeviceCreate IBS_FETCH c, DeviceDestroy IBS_OP c]"
    by (simp add: cb calls_since_def)
qed

text \<open>
  Both cases on core 1: op creation fails with \<open>-ENOMEM\<close> on the loaded Family 15h
  machine, and fetch creation fails with \<open>-ENOMEM\<close> on a machine without handles.
\<close>

theorem prepare_failure_rolls_back_witness:
  "IS_ERR (device_create_ret op_create_fail_env IBS_OP 1)
   \<and> notifier_to_errno (fst (ibs_class_cpu_callback op_create_fail_env CPU_UP_PREPARE 1
        fam15h_loaded)) = - 12
   \<and> handles (snd (ibs_class_cpu_callback op_create_fail_env CPU_UP_PREPARE 1 fam15h_loaded))
        = handles fam15h_loaded
   \<and> \<not> IS_ERR (device_create_ret fetch_create_fail_env IBS_OP 1)
   \<and> IS_ERR (device_create_ret fetch_create_fail_env IBS_FETCH 1)
   \<and> notifier_to_errno (fst (ibs_class_cpu_callback fetch_create_fail_env CPU_UP_PREPARE 1
        module_load_state)) = - 12
   \<and> handles (snd (ibs_class_cpu_callback fetch_create_fail_env CPU_UP_PREPARE 1
        module_load_state)) = {}
   \<and> calls_since module_load_state
        (snd (ibs_class_cpu_callback fetch_create_fail_env CPU_UP_PREPARE 1 module_load_state))
        = [DeviceCreate IBS_OP 1, DeviceCreate IBS_FETCH 1, DeviceDestroy IBS_OP 1]"
proof -
  have a: "IS_ERR (device_create_ret op_create_fail_env IBS_OP 1)"
    and b: "\<not> IS_ERR (device_create_ret fetch_create_fail_env IBS_OP 1)"
    and c: "IS_ERR (device_create_ret fetch_create_fail_env IBS_FETCH 1)"
    by (simp_all add: env_defs const_defs)
  have pa: "(ucast (PTR_ERR (device_create_ret op_create_fail_env IBS_OP 1)) :: 32 word) = - 12"
    and pc: "(ucast (PTR_ERR (device_create_ret fetch_create_fail_env IBS_FETCH 1)) :: 32 word)
      = - 12"
    by (simp_all add: env_defs const_defs)
  note w1 = prepare_failure_rolls_back [of op_create_fail_env 1 fam15h_loaded]
  note w2 = prepare_failure_rolls_back [of fetch_create_fail_env 1 module_load_state]
  from w1 a
  have "notifier_to_errno (fst (ibs_class_cpu_callback op_create_fail_env CPU_UP_PREPARE 1
        fam15h_loaded)) = ucast (PTR_ERR (device_create_ret op_create_fail_env IBS_OP 1))"
    by blast
  then have "notifier_to_errno (fst (ibs_class_cpu_callback op_create_fail_env CPU_UP_PREPARE 1
        fam15h_loaded)) = - 12"
    by (simp only: pa)
  moreover from w1 a
  have "handles (snd (ibs_class_cpu_callback op_create_fail_env CPU_UP_PREPARE 1 fam15h_loaded))
        = handles fam15h_loaded"
    by blast
  moreover from w2 b c
  have "notifier_to_errno (fst (ibs_class_cpu_callback fetch_create_fail_env CPU_UP_PREPARE 1
        module_load_state)) = ucast (PTR_ERR (device_create_ret fetch_create_fail_env IBS_FETCH 1))"
    by blast
  then have "notifier_to_errno (fst (ibs_class_cpu_callback fetch_create_fail_env
        CPU_UP_PREPARE 1 module_load_state)) = - 12"
    by (simp only: pc)
  moreover from w2 b c
  have "handles (snd (ibs_class_cpu_callback fetch_create_fail_env CPU_UP_PREPARE 1
        module_load_state)) = handles module_load_state - {(IBS_OP, 1)}"
    by blast
  then have "handles (snd (ibs_class_cpu_callback fetch_create_fail_env CPU_UP_PREPARE 1
        module_load_state)) = {}"
    by (simp add: module_load_state_def)
  moreover from w2 b c
  have "calls_since module_load_state
        (snd (ibs_class_cpu_callback fetch_create_fail_env CPU_UP_PREPARE 1 module_load_state))
        = [DeviceCreate IBS_OP 1, DeviceCreate IBS_FETCH 1, DeviceDestroy IBS_OP 1]"
    by blast
  ultimately show ?thesis using a b c by simp
qed

subsection \<open>C5: core down-prepare switches sampling off\<close>

text \<open>
  C5. On \<open>CPU_DOWN_PREPARE\<close> for any core, the callback calls the disabling routine of
  the op device and then that of the fetch device of this core, whatever the state is,
  and it stops the continuous workaround on the core exactly when
  \<open>workaround_fam17h_m01h\<close> is set. No acquire is involved: the calls are the same
  whatever the per-core devices, and so their \<open>in_use\<close> flags, hold. The transition
  is not vetoed.
\<close>

theorem down_prepare_disables_sampling:
  "fst (ibs_class_cpu_callback e CPU_DOWN_PREPARE c s) = NOTIFY_OK
   \<and> calls_since s (snd (ibs_class_cpu_callback e CPU_DOWN_PREPARE c s))
       = [DisableOp c, DisableFetch c]
         @ (if workaround_fam17h_m01h s \<noteq> 0 then [StopWorkaround c] else [])
   \<and> (StopWorkaround c \<in> set (calls_since s (snd (ibs_class_cpu_callback e CPU_DOWN_PREPARE c s))))
       = (workaround_fam17h_m01h s \<noteq> 0)
   \<and> calls_since (s\<lparr>pcpu_op_dev := p, pcpu_fetch_dev := q\<rparr>)
        (snd (ibs_class_cpu_callback e CPU_DOWN_PREPARE c (s\<lparr>pcpu_op_dev := p, pcpu_fetch_dev := q\<rparr>)))
       = calls_since s (snd (ibs_class_cpu_callback e CPU_DOWN_PREPARE c s))"
  by (simp add: callback_down_prepare calls_since_def)

text \<open>With the workaround flag set (Family 17h) and clear (Family 15h), on core 1.\<close>

theorem down_prepare_disables_sampling_witness:
  "workaround_fam17h_m01h fam17h_loaded \<noteq> 0
   \<and> calls_since fam17h_loaded
        (snd (ibs_class_cpu_callback fam17h_env CPU_DOWN_PREPARE 1 fam17h_loaded))
       = [DisableOp 1, DisableFetch 1, StopWorkaround 1]
   \<and> workaround_fam17h_m01h fam15h_loaded = 0
   \<and> calls_since fam15h_loaded
        (snd (ibs_class_cpu_callback fam15h_env CPU_DOWN_PREPARE 1 fam15h_loaded))
       = [DisableOp 1, DisableFetch 1]"
proof -
  have f17: "workaround_fam17h_m01h fam17h_loaded = 1"
    by (simp add: fam17h_loaded_def init_defs probe_defs env_defs const_defs prim_defs
        dev_defs module_load_state_def Let_def word_sless_alt)
  have f15: "workaround_fam17h_m01h fam15h_loaded = 0"
    by (simp add: fam15h_loaded_def init_defs probe_defs env_defs const_defs prim_defs
        dev_defs module_load_state_def Let_def word_sless_alt)
  show ?thesis
    using down_prepare_disables_sampling [of fam17h_env 1 fam17h_loaded]
      down_prepare_disables_sampling [of fam15h_env 1 fam15h_loaded]
    by (simp add: f17 f15)
qed

subsection \<open>C6: cancelled preparation and core removal destroy both handles\<close>

text \<open>
  C6. On \<open>CPU_UP_CANCELED\<close>, \<open>CPU_UP_CANCELED_FROZEN\<close> and \<open>CPU_DEAD\<close> for any core,
  the callback destroys the op handle and then the fetch handle of this core: neither
  exists afterwards, and no other handle is touched.
\<close>

theorem removal_destroys_both_handles:
  assumes "action = CPU_UP_CANCELED \<or> action = CPU_UP_CANCELED_FROZEN \<or> action = CPU_DEAD"
  shows "fst (ibs_class_cpu_callback e action c s) = NOTIFY_OK
   \<and> (IBS_OP, c) \<notin> handles (snd (ibs_class_cpu_callback e action c s))
   \<and> (IBS_FETCH, c) \<notin> handles (snd (ibs_class_cpu_callback e action c s))
   \<and> handles (snd (ibs_class_cpu_callback e action c s))
       = handles s - {(IBS_OP, c), (IBS_FETCH, c)}
   \<and> calls_since s (snd (ibs_class_cpu_callback e action c s))
       = [DeviceDestroy IBS_OP c, DeviceDestroy IBS_FETCH c]"
  by (simp add: callback_remove [OF assms] calls_since_def)

text \<open>Removing core 1 of the loaded Family 15h machine leaves the handles of core 0.\<close>

theorem removal_destroys_both_handles_witness:
  "CPU_UP_CANCELED_FROZEN = 0x14
   \<and> handles fam15h_loaded = {(IBS_OP, 0), (IBS_FETCH, 0), (IBS_OP, 1), (IBS_FETCH, 1)}
   \<and> handles (snd (ibs_class_cpu_callback fam15h_env CPU_UP_CANCELED 1 fam15h_loaded))
       = {(IBS_OP, 0), (IBS_FETCH, 0)}
   \<and> handles (snd (ibs_class_cpu_callback fam15h_env CPU_UP_CANCELED_FROZEN 1 fam15h_loaded))
       = {(IBS_OP, 0), (IBS_FETCH, 0)}
   \<and> handles (snd (ibs_class_cpu_callback fam15h_env CPU_DEAD 1 fam15h_loaded))
       = {(IBS_OP, 0), (IBS_FETCH, 0)}"
proof -
  have h: "handles fam15h_loaded = {(IBS_OP, 0), (IBS_FETCH, 0), (IBS_OP, 1), (IBS_FETCH, 1)}"
    by (simp add: fam15h_loaded_def init_defs probe_defs env_defs const_defs prim_defs
        dev_defs module_load_state_def Let_def word_sless_alt insert_commute)
  have d: "handles fam15h_loaded - {(IBS_OP, 1), (IBS_FETCH, 1)} = {(IBS_OP, 0), (IBS_FETCH, 0)}"
    unfolding h by auto
  have f: "CPU_UP_CANCELED_FROZEN = 0x14"
    by (simp add: const_defs)
  have "handles (snd (ibs_class_cpu_callback fam15h_env CPU_UP_CANCELED 1 fam15h_loaded))
       = handles fam15h_loaded - {(IBS_OP, 1), (IBS_FETCH, 1)}"
    using removal_destroys_both_handles [of CPU_UP_CANCELED fam15h_env 1 fam15h_loaded]
    by blast
  then have c1: "handles (snd (ibs_class_cpu_callback fam15h_env CPU_UP_CANCELED 1
      fam15h_loaded)) = {(IBS_OP, 0), (IBS_FETCH, 0)}"
    by (simp only: d)
  have "handles (snd (ibs_class_cpu_callback fam15h_env CPU_UP_CANCELED_FROZEN 1 fam15h_loaded))
       = handles fam15h_loaded - {(IBS_OP, 1), (IBS_FETCH, 1)}"
    using removal_destroys_both_handles [of CPU_UP_CANCELED_FROZEN fam15h_env 1 fam15h_loaded]
    by blast
  then have c2: "handles (snd (ibs_class_cpu_callback fam15h_env CPU_UP_CANCELED_FROZEN 1
      fam15h_loaded)) = {(IBS_OP, 0), (IBS_FETCH, 0)}"
    by (simp only: d)
  have "handles (snd (ibs_class_cpu_callback fam15h_env CPU_DEAD 1 fam15h_loaded))
       = handles fam15h_loaded - {(IBS_OP, 1), (IBS_FETCH, 1)}"
    using removal_destroys_both_handles [of CPU_DEAD fam15h_env 1 fam15h_loaded]
    by blast
  then have c3: "handles (snd (ibs_class_cpu_callback fam15h_env CPU_DEAD 1 fam15h_loaded))
       = {(IBS_OP, 0), (IBS_FETCH, 0)}"
    by (simp only: d)
  show ?thesis
    by (intro conjI f h c1 c2 c3)
qed

subsection \<open>Closed forms for the teardown iterations\<close>

lemma diff_two_then_cores:
  "A - {(IBS_FETCH, c)} - {(IBS_OP, c)} - {(f, c'). c' \<in> set cs}
     = A - {(f, c'). c' \<in> set (c # cs)}"
  "A - {(IBS_OP, c)} - {(IBS_FETCH, c)} - {(f, c'). c' \<in> set cs}
     = A - {(f, c'). c' \<in> set (c # cs)}"
proof -
  have "\<And>f :: flavor. f = IBS_OP \<or> f = IBS_FETCH"
    by (case_tac f) simp_all
  then show "A - {(IBS_FETCH, c)} - {(IBS_OP, c)} - {(f, c'). c' \<in> set cs}
     = A - {(f, c'). c' \<in> set (c # cs)}"
    "A - {(IBS_OP, c)} - {(IBS_FETCH, c)} - {(f, c'). c' \<in> set cs}
     = A - {(f, c'). c' \<in> set (c # cs)}"
    by auto
qed

lemma free_buffers_loop_eq:
  "free_buffers_loop cs s =
     s\<lparr>buffers := buffers s - {(f, c). c \<in> set cs},
       trace := trace s @ concat (map (\<lambda>c. [FreeBuffer IBS_FETCH c, FreeBuffer IBS_OP c]) cs)\<rparr>"
proof (induction cs arbitrary: s)
  case Nil
  show ?case by simp
next
  case (Cons c cs)
  show ?case
    by (simp add: Cons.IH free_ibs_buffer_def log_event_def diff_two_then_cores(1) del: set_simps)
qed

lemma destroy_handles_loop_eq:
  "destroy_handles_loop cs s =
     s\<lparr>handles := handles s - {(f, c). c \<in> set cs},
       trace := trace s
         @ concat (map (\<lambda>c. [DeviceDestroy IBS_OP c, DeviceDestroy IBS_FETCH c]) cs)\<rparr>"
proof (induction cs arbitrary: s)
  case Nil
  show ?case by simp
next
  case (Cons c cs)
  show ?case
    by (simp add: Cons.IH ibs_device_destroy_def device_destroy_def log_event_def
        diff_two_then_cores(2) del: set_simps)
qed

lemma exit_free_loop_eq:
  "exit_free_loop cs s =
     s\<lparr>buffers := buffers s - {(f, c). c \<in> set cs},
       trace := trace s
         @ concat (map (\<lambda>c. [FreeBuffer IBS_FETCH c, FreeBuffer IBS_OP c]
                    @ (if workaround_fam17h_m01h s \<noteq> 0 then [StopWorkaround c] else [])) cs)\<rparr>"
proof (induction cs arbitrary: s)
  case Nil
  show ?case by simp
next
  case (Cons c cs)
  show ?case
    by (simp add: Cons.IH free_ibs_buffer_def stop_fam17h_m01h_static_workaround_def
        log_event_def Let_def diff_two_then_cores(1) del: set_simps)
qed

lemma flavor_supported_update [simp]:
  "flavor_supported f (s\<lparr>trace := t\<rparr>) = flavor_supported f s"
  "flavor_supported f (s\<lparr>handles := h\<rparr>) = flavor_supported f s"
  "flavor_supported f (s\<lparr>buffers := b\<rparr>) = flavor_supported f s"
  "flavor_supported f (s\<lparr>pcpu_op_dev := p\<rparr>) = flavor_supported f s"
  "flavor_supported f (s\<lparr>pcpu_fetch_dev := q\<rparr>) = flavor_supported f s"
  "flavor_supported f (s\<lparr>ibs_major := m\<rparr>) = flavor_supported f s"
  "flavor_supported f (s\<lparr>ibs_class := k\<rparr>) = flavor_supported f s"
  by (cases f; simp)+

lemma supported_diff_step:
  "P IBS_OP \<Longrightarrow> P IBS_FETCH \<Longrightarrow>
     A - {(IBS_OP, c)} - {(IBS_FETCH, c)} - {(f, c'). c' \<in> set cs \<and> P f}
       = A - {(f, c'). c' \<in> set (c # cs) \<and> P f}"
  "P IBS_OP \<Longrightarrow> \<not> P IBS_FETCH \<Longrightarrow>
     A - {(IBS_OP, c)} - {(f, c'). c' \<in> set cs \<and> P f}
       = A - {(f, c'). c' \<in> set (c # cs) \<and> P f}"
  "\<not> P IBS_OP \<Longrightarrow> P IBS_FETCH \<Longrightarrow>
     A - {(IBS_FETCH, c)} - {(f, c'). c' \<in> set cs \<and> P f}
       = A - {(f, c'). c' \<in> set (c # cs) \<and> P f}"
  "\<not> P IBS_OP \<Longrightarrow> \<not> P IBS_FETCH \<Longrightarrow>
     A - {(f, c'). c' \<in> set cs \<and> P f}
       = A - {(f, c'). c' \<in> set (c # cs) \<and> P f}"
  by (auto, (metis (full_types) flavor.exhaust)+)

lemma exit_destroy_loop_eq:
  "exit_destroy_loop cs s =
     s\<lparr>handles := handles s - {(f, c). c \<in> set cs \<and> flavor_supported f s},
       trace := trace s
         @ concat (map (\<lambda>c. (if ibs_op_supported s \<noteq> 0 then [DeviceDestroy IBS_OP c] else [])
                    @ (if ibs_fetch_supported s \<noteq> 0 then [DeviceDestroy IBS_FETCH c] else []))
                  cs)\<rparr>"
proof (induction cs arbitrary: s)
  case Nil
  show ?case by simp
next
  case (Cons c cs)
  note step = supported_diff_step [where P = "\<lambda>f. flavor_supported f s" and A = "handles s" and c = c
      and cs = cs]
  show ?case
    by (simp add: Cons.IH ibs_device_destroy_def device_destroy_def log_event_def Let_def
        step del: set_simps)
qed

lemma ibs_exit_eq:
  "ibs_exit e s =
     s\<lparr>pcpu_op_dev := None, pcpu_fetch_dev := None,
       handles := handles s - {(f, c). c \<in> set (online_cpus e) \<and> flavor_supported f s},
       buffers := buffers s - {(f, c). c \<in> set (possible_cpus e)},
       trace := trace s
         @ [UnregisterNmiHandler, NotifierRegisterBegin]
         @ concat (map (\<lambda>c. (if ibs_op_supported s \<noteq> 0 then [DeviceDestroy IBS_OP c] else [])
                    @ (if ibs_fetch_supported s \<noteq> 0 then [DeviceDestroy IBS_FETCH c] else []))
                  (online_cpus e))
         @ [ClassDestroy, UnregisterChrdev, UnregisterHotcpuNotifier, NotifierRegisterDone]
         @ concat (map (\<lambda>c. [FreeBuffer IBS_FETCH c, FreeBuffer IBS_OP c]
                    @ (if workaround_fam17h_m01h s \<noteq> 0 then [StopWorkaround c] else []))
                  (possible_cpus e))
         @ [FreePercpu IBS_FETCH, FreePercpu IBS_OP, FreeWorkaroundStructs]\<rparr>"
  by (simp add: ibs_exit_def Let_def exit_destroy_loop_eq exit_free_loop_eq prim_defs)

subsection \<open>The example machines after module load\<close>

lemmas eval_defs = init_defs probe_defs env_defs const_defs prim_defs dev_defs
  module_load_state_def Let_def word_sless_alt



subsection \<open>C4: the order of module teardown\<close>












text \<open>
  Outside the amended statement: \<open>ibs_exit\<close> destroys a handle only when its flavor is
  in the capability set, while the hot-plug callback creates both handles whatever the
  capability set is, and \<open>out_class\<close> and the removal branch of the callback destroy
  both. A handle that hot-plug created for an unsupported flavor therefore survives
  module unload: on the fetch-only machine, loaded with core 1 offline and core 1
  prepared afterwards, \<open>ibs_exit\<close> leaves the op handle of core 1.
\<close>

lemma exit_after_hotplug_leaves_handle:
  "fst (ibs_init fetch_only_boot_env module_load_state) = 0
   \<and> handles fetch_only_booted = {(IBS_FETCH, 0)}
   \<and> handles fetch_only_hotplugged = {(IBS_FETCH, 0), (IBS_OP, 1), (IBS_FETCH, 1)}
   \<and> handles (ibs_exit fetch_only_env fetch_only_hotplugged) = {(IBS_OP, 1)}"
proof -
  have r: "fst (ibs_init fetch_only_boot_env module_load_state) = 0"
    and b: "handles fetch_only_booted = {(IBS_FETCH, 0)}"
    and f: "ibs_op_supported fetch_only_booted = 0" "ibs_fetch_supported fetch_only_booted = 2"
    by (simp_all add: fetch_only_booted_def eval_defs)
  have ok: "\<not> IS_ERR (device_create_ret fetch_only_env IBS_OP 1)"
    "\<not> IS_ERR (device_create_ret fetch_only_env IBS_FETCH 1)"
    by (simp_all add: env_defs const_defs)
  have hp: "fetch_only_hotplugged =
      fetch_only_booted\<lparr>handles := insert (IBS_FETCH, 1) (insert (IBS_OP, 1)
          (handles fetch_only_booted)),
        trace := trace fetch_only_booted @ [DeviceCreate IBS_OP 1, DeviceCreate IBS_FETCH 1]\<rparr>"
    unfolding fetch_only_hotplugged_def callback_prepare_ok [OF ok] by (rule snd_conv)
  have h: "handles fetch_only_hotplugged = {(IBS_FETCH, 0), (IBS_OP, 1), (IBS_FETCH, 1)}"
    unfolding hp by (auto simp add: b)
  have s: "\<not> flavor_supported IBS_OP fetch_only_hotplugged"
    "flavor_supported IBS_FETCH fetch_only_hotplugged"
    unfolding hp by (simp_all add: f)
  have cpus: "online_cpus fetch_only_env = [0, 1]"
    by (simp add: env_defs)
  have "handles (ibs_exit fetch_only_env fetch_only_hotplugged) = {(IBS_OP, 1)}"
    using s by (auto simp add: ibs_exit_eq h cpus elim: flavor_supported.elims)
  with r b h show ?thesis by simp
qed

subsection \<open>Which handles module load creates\<close>

lemma creates_only_supported_iff:
  "creates_only_supported e s s' =
     (ibs_op_supported s' = ibs_op_supported s \<and>
      ibs_fetch_supported s' = ibs_fetch_supported s \<and>
      (\<exists>evs. trace s' = trace s @ evs \<and>
         (\<forall>f c. DeviceCreate f c \<in> set evs \<longrightarrow>
            c \<in> set (online_cpus e) \<and> flavor_supported f s)))"
proof -
  have ex: "(take (length (trace s)) (trace s') = trace s) =
      (\<exists>evs. trace s' = trace s @ evs)"
    by (metis append_eq_conv_conj)
  have all: "\<And>evs. list_all (\<lambda>ev. case ev of
                  DeviceCreate f c \<Rightarrow> c \<in> set (online_cpus e) \<and> flavor_supported f s
                | _ \<Rightarrow> True) evs =
      (\<forall>f c. DeviceCreate f c \<in> set evs \<longrightarrow> c \<in> set (online_cpus e) \<and> flavor_supported f s)"
    by (auto simp add: list_all_iff split: event.splits)
  show ?thesis
    unfolding creates_only_supported_def ex all calls_since_def
    by auto
qed

lemma flavor_supported_cong:
  "ibs_op_supported t = ibs_op_supported s \<Longrightarrow> ibs_fetch_supported t = ibs_fetch_supported s
     \<Longrightarrow> flavor_supported f t = flavor_supported f s"
  by (cases f) simp_all

lemma creates_only_supported_refl: "creates_only_supported e s s"
  by (simp add: creates_only_supported_iff)

lemma creates_only_supported_trans:
  assumes "creates_only_supported e s t" and "creates_only_supported e t u"
  shows "creates_only_supported e s u"
proof -
  from assms(1) obtain evs where
    1: "ibs_op_supported t = ibs_op_supported s" "ibs_fetch_supported t = ibs_fetch_supported s"
      "trace t = trace s @ evs"
      "\<forall>f c. DeviceCreate f c \<in> set evs \<longrightarrow> c \<in> set (online_cpus e) \<and> flavor_supported f s"
    unfolding creates_only_supported_iff by blast
  from assms(2) obtain evs' where
    2: "ibs_op_supported u = ibs_op_supported t" "ibs_fetch_supported u = ibs_fetch_supported t"
      "trace u = trace t @ evs'"
      "\<forall>f c. DeviceCreate f c \<in> set evs' \<longrightarrow> c \<in> set (online_cpus e) \<and> flavor_supported f t"
    unfolding creates_only_supported_iff by blast
  have "\<And>f. flavor_supported f t = flavor_supported f s"
    using 1(1,2) by (rule flavor_supported_cong)
  with 1 2 have "trace u = trace s @ (evs @ evs') \<and>
      (\<forall>f c. DeviceCreate f c \<in> set (evs @ evs') \<longrightarrow>
          c \<in> set (online_cpus e) \<and> flavor_supported f s)"
    by auto
  then show ?thesis
    unfolding creates_only_supported_iff using 1(1,2) 2(1,2) by metis
qed

lemma creates_only_supported_append:
  assumes "creates_only_supported e s t"
    and "ibs_op_supported u = ibs_op_supported t" "ibs_fetch_supported u = ibs_fetch_supported t"
    and "trace u = trace t @ evs"
    and "\<forall>f c. DeviceCreate f c \<in> set evs \<longrightarrow> c \<in> set (online_cpus e) \<and> flavor_supported f t"
  shows "creates_only_supported e s u"
proof -
  have "creates_only_supported e t u"
    unfolding creates_only_supported_iff using assms(2-5) by blast
  with assms(1) show ?thesis by (rule creates_only_supported_trans)
qed

lemma creates_only_supported_quiet:
  assumes "creates_only_supported e s t"
    and "ibs_op_supported u = ibs_op_supported t" "ibs_fetch_supported u = ibs_fetch_supported t"
    and "\<exists>evs. trace u = trace t @ evs \<and> (\<forall>f c. DeviceCreate f c \<notin> set evs)"
  shows "creates_only_supported e s u"
proof -
  from assms(4) obtain evs where "trace u = trace t @ evs"
    "\<forall>f c. DeviceCreate f c \<in> set evs \<longrightarrow> c \<in> set (online_cpus e) \<and> flavor_supported f t"
    by blast
  with assms(1-3) show ?thesis by (rule creates_only_supported_append)
qed

lemma creates_only_supported_steps:
  assumes "creates_only_supported e s t"
  shows "creates_only_supported e s (snd (alloc_percpu e f t))"
    and "creates_only_supported e s (t\<lparr>pcpu_op_dev := p\<rparr>)"
    and "creates_only_supported e s (t\<lparr>pcpu_fetch_dev := p\<rparr>)"
    and "creates_only_supported e s (t\<lparr>ibs_major := m\<rparr>)"
    and "creates_only_supported e s (t\<lparr>ibs_class := k\<rparr>)"
    and "creates_only_supported e s (free_percpu f t)"
    and "creates_only_supported e s (snd (init_workaround_structs e t))"
    and "creates_only_supported e s (init_workaround_initialize t)"
    and "creates_only_supported e s (snd (setup_ibs_buffer e f c t))"
    and "creates_only_supported e s (init_op_dev_on_cpu e c t)"
    and "creates_only_supported e s (init_fetch_dev_on_cpu e c t)"
    and "creates_only_supported e s (free_buffers_loop cs t)"
    and "creates_only_supported e s (snd (register_chrdev e t))"
    and "creates_only_supported e s (unregister_chrdev t)"
    and "creates_only_supported e s (snd (class_create e t))"
    and "creates_only_supported e s (class_destroy t)"
    and "creates_only_supported e s (cpu_notifier_register_begin t)"
    and "creates_only_supported e s (cpu_notifier_register_done t)"
    and "creates_only_supported e s (on_each_cpu_ibs_setup_lvt t)"
    and "creates_only_supported e s (destroy_handles_loop cs t)"
    and "creates_only_supported e s (register_hotcpu_notifier t)"
    and "creates_only_supported e s (unregister_hotcpu_notifier t)"
    and "creates_only_supported e s (snd (register_nmi_handler e t))"
  by (rule creates_only_supported_quiet [OF assms];
      (cases f)?;
      auto simp add: prim_defs Let_def free_buffers_loop_eq destroy_handles_loop_eq)+

lemma init_devices_loop_creates:
  assumes "creates_only_supported e s t"
  shows "creates_only_supported e s (snd (snd (init_devices_loop e cs err t)))"
  using assms
proof (induction cs arbitrary: err t)
  case Nil
  then show ?case by simp
next
  case (Cons c cs)
  show ?case
    by (auto simp add: split_beta Let_def intro!: Cons.IH creates_only_supported_steps Cons.prems)
qed

lemma create_handles_loop_creates:
  assumes "creates_only_supported e s t" and "set cs \<subseteq> set (online_cpus e)"
  shows "creates_only_supported e s (snd (snd (create_handles_loop e cs err t)))"
  using assms
proof (induction cs arbitrary: err t)
  case Nil
  then show ?case by simp
next
  case (Cons c cs)
  have c: "c \<in> set (online_cpus e)" and cs: "set cs \<subseteq> set (online_cpus e)"
    using Cons.prems(2) by simp_all
  have step: "\<And>f u. creates_only_supported e s u \<Longrightarrow> flavor_supported f u
      \<Longrightarrow> creates_only_supported e s (snd (ibs_device_create e f c u))"
    by (rule creates_only_supported_append [where evs = "[DeviceCreate _ c]"])
      (auto simp add: ibs_device_create_def device_create_def log_event_def Let_def c)
  show ?case
    using Cons.prems(1)
    by (auto simp add: split_beta Let_def intro!: Cons.IH step cs)
qed

lemma check_for_ibs_support_calls:
  "\<exists>ws. trace (snd (check_for_ibs_support e s)) = trace s @ ws
     \<and> (\<forall>f c. DeviceCreate f c \<notin> set ws)"
  using check_for_ibs_support_trace [of e s] by auto

lemma ibs_init_creates:
  "creates_only_supported e (snd (check_for_ibs_support e s)) (snd (ibs_init e s))"
  by (auto simp add: ibs_init_def out_buffers_def out_chrdev_def out_class_def out_device_def
      err_metadata_def split_beta Let_def
      intro!: creates_only_supported_steps init_devices_loop_creates
        create_handles_loop_creates creates_only_supported_refl)

lemma ibs_init_device_creates:
  assumes "DeviceCreate f c \<in> set (calls_since s (snd (ibs_init e s)))"
  shows "c \<in> set (online_cpus e) \<and> flavor_supported f (snd (ibs_init e s))"
proof -
  obtain ws where ws: "trace (snd (check_for_ibs_support e s)) = trace s @ ws"
    "\<forall>f c. DeviceCreate f c \<notin> set ws"
    using check_for_ibs_support_calls by blast
  obtain evs where evs: "trace (snd (ibs_init e s)) = trace (snd (check_for_ibs_support e s)) @ evs"
    "\<forall>f c. DeviceCreate f c \<in> set evs \<longrightarrow>
       c \<in> set (online_cpus e) \<and> flavor_supported f (snd (check_for_ibs_support e s))"
    and flags: "ibs_op_supported (snd (ibs_init e s))
                  = ibs_op_supported (snd (check_for_ibs_support e s))"
      "ibs_fetch_supported (snd (ibs_init e s))
                  = ibs_fetch_supported (snd (check_for_ibs_support e s))"
    using ibs_init_creates [of e s] unfolding creates_only_supported_iff by blast
  have "calls_since s (snd (ibs_init e s)) = ws @ evs"
    by (simp add: calls_since_def evs(1) ws(1))
  with assms ws(2) have "DeviceCreate f c \<in> set evs"
    by auto
  with evs(2) have "c \<in> set (online_cpus e)"
    "flavor_supported f (snd (check_for_ibs_support e s))"
    by blast+
  moreover have "flavor_supported f (snd (ibs_init e s))
      = flavor_supported f (snd (check_for_ibs_support e s))"
    using flags by (rule flavor_supported_cong)
  ultimately show ?thesis by simp
qed

subsection \<open>C10: handles at module load and handles at hot-plug\<close>

text \<open>
  C10. Module load calls \<open>device_create\<close> for a flavor and a core only if the core is
  online and the flavor is in the capability set. The hot-plug callback does not look
  at the capability set: on \<open>CPU_UP_PREPARE\<close> it always tries to create the op handle,
  tries to create the fetch handle whenever the op handle was created, and when both
  succeed the core has both handles; on \<open>CPU_UP_CANCELED\<close>, \<open>CPU_UP_CANCELED_FROZEN\<close>
  and \<open>CPU_DEAD\<close> it destroys both. The hot-plug statements hold in every state, so
  whatever the two flavor flags are.
\<close>

theorem handle_creation_asymmetry:
  "(\<forall>f c. DeviceCreate f c \<in> set (calls_since s (snd (ibs_init e s))) \<longrightarrow>
       c \<in> set (online_cpus e) \<and> flavor_supported f (snd (ibs_init e s)))
   \<and> DeviceCreate IBS_OP c \<in> set (calls_since t (snd (ibs_class_cpu_callback e CPU_UP_PREPARE c t)))
   \<and> (\<not> IS_ERR (device_create_ret e IBS_OP c) \<longrightarrow>
        DeviceCreate IBS_FETCH c
          \<in> set (calls_since t (snd (ibs_class_cpu_callback e CPU_UP_PREPARE c t))))
   \<and> (\<not> IS_ERR (device_create_ret e IBS_OP c) \<and> \<not> IS_ERR (device_create_ret e IBS_FETCH c) \<longrightarrow>
        calls_since t (snd (ibs_class_cpu_callback e CPU_UP_PREPARE c t))
          = [DeviceCreate IBS_OP c, DeviceCreate IBS_FETCH c]
        \<and> handles (snd (ibs_class_cpu_callback e CPU_UP_PREPARE c t))
          = insert (IBS_FETCH, c) (insert (IBS_OP, c) (handles t)))
   \<and> (action = CPU_UP_CANCELED \<or> action = CPU_UP_CANCELED_FROZEN \<or> action = CPU_DEAD \<longrightarrow>
        calls_since t (snd (ibs_class_cpu_callback e action c t))
          = [DeviceDestroy IBS_OP c, DeviceDestroy IBS_FETCH c])"
proof (intro conjI impI allI)
  fix f c'
  assume "DeviceCreate f c' \<in> set (calls_since s (snd (ibs_init e s)))"
  then have r: "c' \<in> set (online_cpus e) \<and> flavor_supported f (snd (ibs_init e s))"
    by (rule ibs_init_device_creates)
  from r show "c' \<in> set (online_cpus e)" by simp
  from r show "flavor_supported f (snd (ibs_init e s))" by simp
next
  show "DeviceCreate IBS_OP c
      \<in> set (calls_since t (snd (ibs_class_cpu_callback e CPU_UP_PREPARE c t)))"
  proof (cases "IS_ERR (device_create_ret e IBS_OP c)")
    case True
    then show ?thesis
      by (simp add: callback_prepare_op_fails calls_since_def)
  next
    case False
    then show ?thesis
      by (cases "IS_ERR (device_create_ret e IBS_FETCH c)")
        (simp_all add: callback_prepare_fetch_fails callback_prepare_ok calls_since_def)
  qed
next
  assume "\<not> IS_ERR (device_create_ret e IBS_OP c)"
  then show "DeviceCreate IBS_FETCH c
      \<in> set (calls_since t (snd (ibs_class_cpu_callback e CPU_UP_PREPARE c t)))"
    by (cases "IS_ERR (device_create_ret e IBS_FETCH c)")
      (simp_all add: callback_prepare_fetch_fails callback_prepare_ok calls_since_def)
next
  assume a: "\<not> IS_ERR (device_create_ret e IBS_OP c) \<and> \<not> IS_ERR (device_create_ret e IBS_FETCH c)"
  then show "calls_since t (snd (ibs_class_cpu_callback e CPU_UP_PREPARE c t))
          = [DeviceCreate IBS_OP c, DeviceCreate IBS_FETCH c]"
    by (simp add: callback_prepare_ok calls_since_def)
  from a show "handles (snd (ibs_class_cpu_callback e CPU_UP_PREPARE c t))
          = insert (IBS_FETCH, c) (insert (IBS_OP, c) (handles t))"
    by (simp add: callback_prepare_ok)
next
  assume "action = CPU_UP_CANCELED \<or> action = CPU_UP_CANCELED_FROZEN \<or> action = CPU_DEAD"
  then show "calls_since t (snd (ibs_class_cpu_callback e action c t))
          = [DeviceDestroy IBS_OP c, DeviceDestroy IBS_FETCH c]"
    by (simp add: callback_remove calls_since_def)
qed

text \<open>
  On the machine that supports fetch sampling only, module load creates fetch handles
  and no op handle; preparing core 1 afterwards creates both handles, and removing it
  destroys both.
\<close>

lemma fetch_only_loaded_eval:
  "calls_since module_load_state fetch_only_loaded =
     [AllocPercpu IBS_OP, AllocPercpu IBS_FETCH, InitWorkaroundStructs,
      SetupBuffer IBS_OP 0, SetupBuffer IBS_FETCH 0, InitWorkaroundInitialize,
      SetupBuffer IBS_OP 1, SetupBuffer IBS_FETCH 1, InitWorkaroundInitialize,
      RegisterChrdev, ClassCreate, NotifierRegisterBegin, OnEachCpuSetupLvt,
      DeviceCreate IBS_FETCH 0, DeviceCreate IBS_FETCH 1,
      RegisterHotcpuNotifier, NotifierRegisterDone, RegisterNmiHandler]"
  "handles fetch_only_loaded = {(IBS_FETCH, 0), (IBS_FETCH, 1)}"
  "ibs_op_supported fetch_only_loaded = 0"
  "ibs_fetch_supported fetch_only_loaded = 2"
  by (simp_all add: fetch_only_loaded_def calls_since_def eval_defs insert_commute)

theorem handle_creation_asymmetry_witness:
  "DeviceCreate IBS_FETCH 1 \<in> set (calls_since module_load_state fetch_only_loaded)
   \<and> DeviceCreate IBS_OP 1 \<notin> set (calls_since module_load_state fetch_only_loaded)
   \<and> flavor_supported IBS_FETCH fetch_only_loaded
   \<and> \<not> flavor_supported IBS_OP fetch_only_loaded
   \<and> \<not> IS_ERR (device_create_ret fetch_only_env IBS_OP 1)
   \<and> \<not> IS_ERR (device_create_ret fetch_only_env IBS_FETCH 1)
   \<and> calls_since fetch_only_loaded
        (snd (ibs_class_cpu_callback fetch_only_env CPU_UP_PREPARE 1 fetch_only_loaded))
        = [DeviceCreate IBS_OP 1, DeviceCreate IBS_FETCH 1]
   \<and> calls_since fetch_only_loaded
        (snd (ibs_class_cpu_callback fetch_only_env CPU_DEAD 1 fetch_only_loaded))
        = [DeviceDestroy IBS_OP 1, DeviceDestroy IBS_FETCH 1]"
proof -
  note w = handle_creation_asymmetry [of module_load_state fetch_only_env 1 fetch_only_loaded
      CPU_DEAD]
  have c: "DeviceCreate IBS_FETCH 1 \<in> set (calls_since module_load_state fetch_only_loaded)"
    "DeviceCreate IBS_OP 1 \<notin> set (calls_since module_load_state fetch_only_loaded)"
    by (simp_all add: fetch_only_loaded_eval(1))
  have ok: "\<not> IS_ERR (device_create_ret fetch_only_env IBS_OP 1)"
    "\<not> IS_ERR (device_create_ret fetch_only_env IBS_FETCH 1)"
    by (simp_all add: env_defs const_defs)
  from w c(1) have "flavor_supported IBS_FETCH fetch_only_loaded"
    unfolding fetch_only_loaded_def by blast
  moreover have "\<not> flavor_supported IBS_OP fetch_only_loaded"
    by (simp add: fetch_only_loaded_eval)
  moreover from w ok
  have "calls_since fetch_only_loaded
        (snd (ibs_class_cpu_callback fetch_only_env CPU_UP_PREPARE 1 fetch_only_loaded))
        = [DeviceCreate IBS_OP 1, DeviceCreate IBS_FETCH 1]"
    by blast
  moreover from w
  have "calls_since fetch_only_loaded
        (snd (ibs_class_cpu_callback fetch_only_env CPU_DEAD 1 fetch_only_loaded))
        = [DeviceDestroy IBS_OP 1, DeviceDestroy IBS_FETCH 1]"
    by blast
  ultimately show ?thesis using c ok by simp
qed

subsection \<open>C2: failure to get a device number\<close>

text \<open>
  C2. When \<open>__register_chrdev\<close> fails, \<open>ibs_init\<close> jumps to \<open>out_buffers\<close> without
  assigning \<open>err\<close>, which still holds the 0 of the last \<open>setup_ibs_buffer\<close>: the
  unwinding happens, every ring buffer and both per-core storages are freed, but the
  function returns 0 and the module counts as loaded. Evaluated on the two-core
  machine whose kernel answers \<open>-EBUSY\<close>.
\<close>

theorem chrdev_failure_returns_success:
  "register_chrdev_ret chrdev_fail_env <s 0
   \<and> fst (ibs_init chrdev_fail_env module_load_state) = 0
   \<and> calls_since module_load_state (snd (ibs_init chrdev_fail_env module_load_state)) =
       [AllocPercpu IBS_OP, AllocPercpu IBS_FETCH, InitWorkaroundStructs,
        SetupBuffer IBS_OP 0, SetupBuffer IBS_FETCH 0, InitWorkaroundInitialize,
        SetupBuffer IBS_OP 1, SetupBuffer IBS_FETCH 1, InitWorkaroundInitialize,
        RegisterChrdev,
        FreeBuffer IBS_FETCH 0, FreeBuffer IBS_OP 0, FreeBuffer IBS_FETCH 1, FreeBuffer IBS_OP 1,
        FreePercpu IBS_FETCH, FreePercpu IBS_OP]
   \<and> buffers (snd (ibs_init chrdev_fail_env module_load_state)) = {}
   \<and> pcpu_op_dev (snd (ibs_init chrdev_fail_env module_load_state)) = None
   \<and> pcpu_fetch_dev (snd (ibs_init chrdev_fail_env module_load_state)) = None"
  by (auto simp add: calls_since_def eval_defs)

subsection \<open>Devices after the initialisation loop\<close>

lemma init_dev_initialised:
  "dev_initialised e s IBS_OP c (init_ibs_op_dev e s d c)"
  "dev_initialised e s IBS_FETCH c (init_ibs_fetch_dev e s d c)"
  by (simp_all add: dev_initialised_def dev_defs capability_set_def workaround_set_def
      dev_capability_set_def dev_workaround_set_def)

lemma dev_initialised_update [simp]:
  "dev_initialised e (s\<lparr>trace := t\<rparr>) = dev_initialised e s"
  "dev_initialised e (s\<lparr>handles := h\<rparr>) = dev_initialised e s"
  "dev_initialised e (s\<lparr>buffers := b\<rparr>) = dev_initialised e s"
  "dev_initialised e (s\<lparr>pcpu_op_dev := p\<rparr>) = dev_initialised e s"
  "dev_initialised e (s\<lparr>pcpu_fetch_dev := q\<rparr>) = dev_initialised e s"
  "dev_initialised e (s\<lparr>ibs_major := m\<rparr>) = dev_initialised e s"
  "dev_initialised e (s\<lparr>ibs_class := k\<rparr>) = dev_initialised e s"
  by (simp_all add: fun_eq_iff dev_initialised_def capability_set_def workaround_set_def)

lemma dev_ready_steps:
  assumes "dev_ready e f c t"
  shows "dev_ready e f c (init_op_dev_on_cpu e c0 t)"
    and "dev_ready e f c (init_fetch_dev_on_cpu e c0 t)"
    and "dev_ready e f c (snd (setup_ibs_buffer e f' c0 t))"
    and "dev_ready e f c (init_workaround_initialize t)"
    and "dev_ready e f c (snd (register_chrdev e t))"
    and "dev_ready e f c (snd (class_create e t))"
    and "dev_ready e f c (t\<lparr>ibs_major := m\<rparr>)"
    and "dev_ready e f c (t\<lparr>ibs_class := k\<rparr>)"
    and "dev_ready e f c (cpu_notifier_register_begin t)"
    and "dev_ready e f c (cpu_notifier_register_done t)"
    and "dev_ready e f c (on_each_cpu_ibs_setup_lvt t)"
    and "dev_ready e f c (register_hotcpu_notifier t)"
    and "dev_ready e f c (snd (register_nmi_handler e t))"
    and "dev_ready e f c (snd (ibs_device_create e f' c0 t))"
  using assms
  by (cases f; auto simp add: dev_ready_def prim_defs Let_def init_dev_initialised
      split: option.splits)+

lemma dev_ready_init:
  "pcpu_op_dev t \<noteq> None \<Longrightarrow> dev_ready e IBS_OP c (init_op_dev_on_cpu e c t)"
  "pcpu_fetch_dev t \<noteq> None \<Longrightarrow> dev_ready e IBS_FETCH c (init_fetch_dev_on_cpu e c t)"
  by (auto simp add: dev_ready_def prim_defs init_dev_initialised)

lemma storage_steps:
  "pcpu_dev f (init_op_dev_on_cpu e c t) = None \<longleftrightarrow> pcpu_dev f t = None"
  "pcpu_dev f (init_fetch_dev_on_cpu e c t) = None \<longleftrightarrow> pcpu_dev f t = None"
  "pcpu_dev f (snd (setup_ibs_buffer e f' c t)) = pcpu_dev f t"
  "pcpu_dev f (init_workaround_initialize t) = pcpu_dev f t"
  by (cases f; simp add: prim_defs Let_def)+

lemma init_devices_loop_keeps:
  assumes "dev_ready e f c s"
  shows "dev_ready e f c (snd (snd (init_devices_loop e cs err s)))"
  using assms
proof (induction cs arbitrary: err s)
  case Nil
  then show ?case by simp
next
  case (Cons c0 cs)
  show ?case
    by (auto simp add: split_beta Let_def intro!: Cons.IH dev_ready_steps Cons.prems)
qed

lemma init_devices_loop_storage:
  "pcpu_dev f (snd (snd (init_devices_loop e cs err s))) = None \<longleftrightarrow> pcpu_dev f s = None"
  by (induction cs arbitrary: err s) (simp_all add: split_beta Let_def storage_steps)

lemma init_devices_loop_ready:
  assumes "fst (init_devices_loop e cs err s)" and "pcpu_dev f s \<noteq> None" and "c \<in> set cs"
  shows "dev_ready e f c (snd (snd (init_devices_loop e cs err s)))"
  using assms
proof (induction cs arbitrary: err s)
  case Nil
  then show ?case by simp
next
  case (Cons c0 cs)
  define s1 where "s1 = init_op_dev_on_cpu e c0 s"
  define r1 where "r1 = setup_ibs_buffer e IBS_OP c0 s1"
  define s3 where "s3 = init_fetch_dev_on_cpu e c0 (snd r1)"
  define r2 where "r2 = setup_ibs_buffer e IBS_FETCH c0 s3"
  define s5 where "s5 = init_workaround_initialize (snd r2)"
  have step: "init_devices_loop e (c0 # cs) err s =
      (if fst r1 \<noteq> 0 then (False, fst r1, snd r1)
       else if fst r2 \<noteq> 0 then (False, fst r2, snd r2)
       else init_devices_loop e cs (fst r2) s5)"
    by (simp add: s1_def r1_def s3_def r2_def s5_def split_beta Let_def)
  from Cons.prems(1) [unfolded step] have ok: "fst r1 = 0" "fst r2 = 0"
    and rest: "fst (init_devices_loop e cs (fst r2) s5)"
    by (auto split: if_splits)
  then have eq: "init_devices_loop e (c0 # cs) err s = init_devices_loop e cs (fst r2) s5"
    unfolding step by simp
  have live: "pcpu_dev f s5 \<noteq> None"
    using Cons.prems(2)
    by (simp add: s5_def r2_def s3_def r1_def s1_def storage_steps)
  show ?case
  proof (cases "c \<in> set cs")
    case True
    with rest live show ?thesis
      unfolding eq by (rule Cons.IH)
  next
    case False
    with Cons.prems(3) have c: "c = c0" by simp
    have "dev_ready e f c0 s5"
    proof (cases f)
      case IBS_OP
      with Cons.prems(2) have "dev_ready e f c0 s1"
        by (simp add: s1_def dev_ready_init)
      then show ?thesis
        by (simp add: s5_def r2_def s3_def r1_def dev_ready_steps)
    next
      case IBS_FETCH
      with Cons.prems(2) have "pcpu_fetch_dev (snd r1) \<noteq> None"
        using storage_steps(1) [of IBS_FETCH e c0 s] storage_steps(3) [of IBS_FETCH e IBS_OP c0 s1]
        by (simp add: r1_def s1_def)
      then have "dev_ready e f c0 s3"
        by (simp add: IBS_FETCH s3_def dev_ready_init)
      then show ?thesis
        by (simp add: s5_def r2_def dev_ready_steps)
    qed
    then show ?thesis
      unfolding eq c by (rule init_devices_loop_keeps)
  qed
qed

lemma create_handles_loop_keeps:
  assumes "dev_ready e f c s"
  shows "dev_ready e f c (snd (snd (create_handles_loop e cs err s)))"
  using assms
proof (induction cs arbitrary: err s)
  case Nil
  then show ?case by simp
next
  case (Cons c0 cs)
  show ?case
    by (auto simp add: split_beta Let_def intro!: Cons.IH dev_ready_steps Cons.prems)
qed

subsection \<open>Module load, path by path\<close>

lemma pcpu_dev_update [simp]:
  "pcpu_dev f (s\<lparr>trace := t\<rparr>) = pcpu_dev f s"
  "pcpu_dev f (s\<lparr>handles := h\<rparr>) = pcpu_dev f s"
  "pcpu_dev f (s\<lparr>buffers := b\<rparr>) = pcpu_dev f s"
  "pcpu_dev f (s\<lparr>ibs_major := m\<rparr>) = pcpu_dev f s"
  "pcpu_dev f (s\<lparr>ibs_class := k\<rparr>) = pcpu_dev f s"
  by (cases f; simp)+

lemma pcpu_dev_free_percpu:
  "pcpu_dev f (free_percpu f' t) = (if f = f' then None else pcpu_dev f t)"
  by (cases f; cases f'; simp add: free_percpu_def log_event_def)

lemma create_handles_loop_storage:
  "pcpu_dev f (snd (snd (create_handles_loop e cs err s))) = pcpu_dev f s"
  by (induction cs arbitrary: err s)
    (simp_all add: split_beta Let_def ibs_device_create_def device_create_def log_event_def)

lemma ibs_init_storage_freed:
  "pcpu_dev f (snd (out_buffers e err t)) = None"
  "pcpu_dev f (snd (out_chrdev e err t)) = None"
  "pcpu_dev f (snd (out_class e err t)) = None"
  "pcpu_dev f (snd (out_device e err t)) = None"
  by (cases f; simp add: out_buffers_def out_chrdev_def out_class_def out_device_def
      pcpu_dev_free_percpu)+

lemma pcpu_dev_storage_update [simp]:
  "pcpu_dev f (s\<lparr>pcpu_op_dev := p\<rparr>) = (if f = IBS_OP then p else pcpu_dev f s)"
  "pcpu_dev f (s\<lparr>pcpu_fetch_dev := p\<rparr>) = (if f = IBS_FETCH then p else pcpu_dev f s)"
  by (cases f; simp)+

lemma pcpu_dev_frames:
  "pcpu_dev f (snd (check_for_ibs_support e s)) = pcpu_dev f s"
  "pcpu_dev f (snd (alloc_percpu e f' s)) = pcpu_dev f s"
  "pcpu_dev f (snd (init_workaround_structs e s)) = pcpu_dev f s"
  by (cases f; simp add: check_for_ibs_support_frame alloc_percpu_def
      init_workaround_structs_def log_event_def)+

lemma ibs_init_flat:
  assumes "r0 = check_for_ibs_support e s"
    and "s3 = (snd (alloc_percpu e IBS_OP (snd r0)))
                \<lparr>pcpu_op_dev := fst (alloc_percpu e IBS_OP (snd r0))\<rparr>"
    and "s5 = (snd (alloc_percpu e IBS_FETCH s3))
                \<lparr>pcpu_fetch_dev := fst (alloc_percpu e IBS_FETCH s3)\<rparr>"
    and "r6 = init_workaround_structs e s5"
    and "r7 = init_devices_loop e (possible_cpus e) (fst r0) (snd r6)"
    and "s9 = (snd (register_chrdev e (snd (snd r7))))
                \<lparr>ibs_major := fst (register_chrdev e (snd (snd r7)))\<rparr>"
    and "s11 = (snd (class_create e s9))\<lparr>ibs_class := fst (class_create e s9)\<rparr>"
    and "s12 = on_each_cpu_ibs_setup_lvt (cpu_notifier_register_begin s11)"
    and "r13 = create_handles_loop e (online_cpus e) (fst (snd r7)) s12"
    and "s14 = cpu_notifier_register_done (register_hotcpu_notifier (snd (snd r13)))"
    and "r15 = register_nmi_handler e s14"
  shows "ibs_init e s =
     (if fst r0 <s 0 then r0
      else if pcpu_op_dev s3 = None then err_metadata s3
      else if pcpu_fetch_dev s5 = None then err_metadata (free_percpu IBS_OP s5)
      else if fst r6 \<noteq> 0
        then err_metadata (free_percpu IBS_FETCH (free_percpu IBS_OP (snd r6)))
      else if \<not> fst r7 then out_buffers e (fst (snd r7)) (snd (snd r7))
      else if ibs_major s9 <s 0 then out_buffers e (fst (snd r7)) s9
      else if IS_ERR (ibs_class s11) then out_chrdev e (ucast (PTR_ERR (ibs_class s11))) s11
      else if \<not> fst r13 then out_class e (fst (snd r13)) (snd (snd r13))
      else if fst r15 \<noteq> 0 then out_device e (fst r15) (snd r15)
      else (0, snd r15))"
  unfolding assms ibs_init_def split_beta Let_def
  by simp

lemma ibs_init_devices_ready:
  assumes "pcpu_dev f s = None" and "pcpu_dev f (snd (ibs_init e s)) \<noteq> None"
    and "c \<in> set (possible_cpus e)"
  shows "dev_ready e f c (snd (ibs_init e s))"
proof -
  define r0 where "r0 = check_for_ibs_support e s"
  define s3 where "s3 = (snd (alloc_percpu e IBS_OP (snd r0)))
                \<lparr>pcpu_op_dev := fst (alloc_percpu e IBS_OP (snd r0))\<rparr>"
  define s5 where "s5 = (snd (alloc_percpu e IBS_FETCH s3))
                \<lparr>pcpu_fetch_dev := fst (alloc_percpu e IBS_FETCH s3)\<rparr>"
  define r6 where "r6 = init_workaround_structs e s5"
  define r7 where "r7 = init_devices_loop e (possible_cpus e) (fst r0) (snd r6)"
  define s9 where "s9 = (snd (register_chrdev e (snd (snd r7))))
                \<lparr>ibs_major := fst (register_chrdev e (snd (snd r7)))\<rparr>"
  define s11 where "s11 = (snd (class_create e s9))\<lparr>ibs_class := fst (class_create e s9)\<rparr>"
  define s12 where "s12 = on_each_cpu_ibs_setup_lvt (cpu_notifier_register_begin s11)"
  define r13 where "r13 = create_handles_loop e (online_cpus e) (fst (snd r7)) s12"
  define s14 where "s14 = cpu_notifier_register_done (register_hotcpu_notifier (snd (snd r13)))"
  define r15 where "r15 = register_nmi_handler e s14"
  note flat = ibs_init_flat [OF r0_def s3_def s5_def r6_def r7_def s9_def s11_def s12_def
      r13_def s14_def r15_def]
  have s0: "pcpu_dev f (snd r0) = None"
    using assms(1) by (simp add: r0_def pcpu_dev_frames)
  have s3_fetch: "pcpu_fetch_dev s3 = pcpu_fetch_dev (snd r0)"
    by (simp add: s3_def alloc_percpu_def log_event_def)
  have s5_op: "pcpu_op_dev s5 = pcpu_op_dev s3"
    by (simp add: s5_def alloc_percpu_def log_event_def)
  have s6: "pcpu_op_dev (snd r6) = pcpu_op_dev s5" "pcpu_fetch_dev (snd r6) = pcpu_fetch_dev s5"
    by (simp_all add: r6_def init_workaround_structs_def log_event_def)
  have b1: "pcpu_op_dev s3 = None \<Longrightarrow> pcpu_dev f s3 = None"
    using s0 s3_fetch by (cases f) simp_all
  have b2: "pcpu_fetch_dev s5 = None \<Longrightarrow> pcpu_dev f (free_percpu IBS_OP s5) = None"
    by (cases f) (simp_all add: pcpu_dev_free_percpu)
  have b3: "pcpu_dev f (free_percpu IBS_FETCH (free_percpu IBS_OP (snd r6))) = None"
    by (cases f) (simp_all add: pcpu_dev_free_percpu)
  have "pcpu_dev f (snd (ibs_init e s)) = None \<or>
      (pcpu_op_dev s3 \<noteq> None \<and> pcpu_fetch_dev s5 \<noteq> None \<and> fst r7
        \<and> snd (ibs_init e s) = snd r15)"
    unfolding flat err_metadata_def
    by (simp add: s0 b1 b2 b3 ibs_init_storage_freed)
  then have live: "pcpu_op_dev s3 \<noteq> None \<and> pcpu_fetch_dev s5 \<noteq> None \<and> fst r7
      \<and> snd (ibs_init e s) = snd r15"
    using assms(2) by (elim disjE) simp_all
  then have "pcpu_dev f (snd r6) \<noteq> None"
    using s5_op by (cases f) (simp_all add: s6)
  with live have "dev_ready e f c (snd (snd r7))"
    unfolding r7_def using assms(3) by (intro init_devices_loop_ready) simp_all
  then have "dev_ready e f c (snd r15)"
    unfolding r15_def s14_def r13_def s12_def s11_def s9_def
    by (intro dev_ready_steps create_handles_loop_keeps)
  with live show ?thesis by simp
qed

lemma flags_update [simp]:
  "capability_set (s\<lparr>trace := t\<rparr>) = capability_set s"
  "capability_set (s\<lparr>handles := h\<rparr>) = capability_set s"
  "capability_set (s\<lparr>buffers := b\<rparr>) = capability_set s"
  "capability_set (s\<lparr>pcpu_op_dev := p\<rparr>) = capability_set s"
  "capability_set (s\<lparr>pcpu_fetch_dev := q\<rparr>) = capability_set s"
  "capability_set (s\<lparr>ibs_major := m\<rparr>) = capability_set s"
  "capability_set (s\<lparr>ibs_class := k\<rparr>) = capability_set s"
  "workaround_set (s\<lparr>trace := t\<rparr>) = workaround_set s"
  "workaround_set (s\<lparr>handles := h\<rparr>) = workaround_set s"
  "workaround_set (s\<lparr>buffers := b\<rparr>) = workaround_set s"
  "workaround_set (s\<lparr>pcpu_op_dev := p\<rparr>) = workaround_set s"
  "workaround_set (s\<lparr>pcpu_fetch_dev := q\<rparr>) = workaround_set s"
  "workaround_set (s\<lparr>ibs_major := m\<rparr>) = workaround_set s"
  "workaround_set (s\<lparr>ibs_class := k\<rparr>) = workaround_set s"
  by (simp_all add: capability_set_def workaround_set_def)

lemma flags_steps:
  "capability_set (snd (alloc_percpu e f t)) = capability_set t"
  "workaround_set (snd (alloc_percpu e f t)) = workaround_set t"
  "capability_set (free_percpu f t) = capability_set t"
  "workaround_set (free_percpu f t) = workaround_set t"
  "capability_set (snd (init_workaround_structs e t)) = capability_set t"
  "workaround_set (snd (init_workaround_structs e t)) = workaround_set t"
  "capability_set (free_buffers_loop cs t) = capability_set t"
  "workaround_set (free_buffers_loop cs t) = workaround_set t"
  "capability_set (snd (register_chrdev e t)) = capability_set t"
  "workaround_set (snd (register_chrdev e t)) = workaround_set t"
  "capability_set (unregister_chrdev t) = capability_set t"
  "workaround_set (unregister_chrdev t) = workaround_set t"
  "capability_set (snd (class_create e t)) = capability_set t"
  "workaround_set (snd (class_create e t)) = workaround_set t"
  "capability_set (class_destroy t) = capability_set t"
  "workaround_set (class_destroy t) = workaround_set t"
  "capability_set (cpu_notifier_register_begin t) = capability_set t"
  "workaround_set (cpu_notifier_register_begin t) = workaround_set t"
  "capability_set (cpu_notifier_register_done t) = capability_set t"
  "workaround_set (cpu_notifier_register_done t) = workaround_set t"
  "capability_set (on_each_cpu_ibs_setup_lvt t) = capability_set t"
  "workaround_set (on_each_cpu_ibs_setup_lvt t) = workaround_set t"
  "capability_set (destroy_handles_loop cs t) = capability_set t"
  "workaround_set (destroy_handles_loop cs t) = workaround_set t"
  "capability_set (register_hotcpu_notifier t) = capability_set t"
  "workaround_set (register_hotcpu_notifier t) = workaround_set t"
  "capability_set (unregister_hotcpu_notifier t) = capability_set t"
  "workaround_set (unregister_hotcpu_notifier t) = workaround_set t"
  "capability_set (snd (register_nmi_handler e t)) = capability_set t"
  "workaround_set (snd (register_nmi_handler e t)) = workaround_set t"
  by (cases f; simp add: prim_defs free_buffers_loop_eq destroy_handles_loop_eq)+

lemma create_handles_loop_flags:
  "capability_set (snd (snd (create_handles_loop e cs err s))) = capability_set s"
  "workaround_set (snd (snd (create_handles_loop e cs err s))) = workaround_set s"
  by (induction cs arbitrary: err s;
      simp add: split_beta Let_def ibs_device_create_def device_create_def log_event_def)+

lemma init_devices_loop_flags:
  "capability_set (snd (snd (init_devices_loop e cs err s))) = capability_set s"
  "workaround_set (snd (snd (init_devices_loop e cs err s))) = workaround_set s"
  by (induction cs arbitrary: err s;
      simp add: split_beta Let_def prim_defs capability_set_def workaround_set_def)+

lemma init_devices_loop_err:
  "fst (init_devices_loop e cs 0 s) \<Longrightarrow> fst (snd (init_devices_loop e cs 0 s)) = 0"
  by (induction cs arbitrary: s) (auto simp add: split_beta Let_def split: if_splits)

lemma init_devices_loop_done:
  assumes "\<forall>c\<in>set cs. setup_ibs_buffer_ret e IBS_OP c = 0 \<and> setup_ibs_buffer_ret e IBS_FETCH c = 0"
  shows "fst (init_devices_loop e cs err s)"
  using assms
  by (induction cs arbitrary: err s) (simp_all add: split_beta Let_def setup_ibs_buffer_def)

lemma init_devices_loop_buffers:
  "buffers s \<subseteq> buffers (snd (snd (init_devices_loop e cs err s)))
   \<and> buffers (snd (snd (init_devices_loop e cs err s))) \<subseteq> buffers s \<union> {(f, c). c \<in> set cs}"
proof (induction cs arbitrary: err s)
  case Nil
  show ?case by simp
next
  case (Cons c0 cs)
  define s5 where "s5 = init_workaround_initialize (snd (setup_ibs_buffer e IBS_FETCH c0
      (init_fetch_dev_on_cpu e c0 (snd (setup_ibs_buffer e IBS_OP c0
        (init_op_dev_on_cpu e c0 s))))))"
  have b5: "buffers s \<subseteq> buffers s5" "buffers s5 \<subseteq> buffers s \<union> {(f, c). c = c0}"
    by (auto simp add: s5_def prim_defs Let_def)
  note IH = Cons.IH [where s = s5 and err = 0]
  show ?case
    using b5 IH
    by (simp add: split_beta Let_def s5_def [symmetric])
      (auto simp add: prim_defs Let_def)
qed

lemma ibs_init_flags:
  "capability_set (snd (ibs_init e s)) = capability_set (snd (check_for_ibs_support e s))"
  "workaround_set (snd (ibs_init e s)) = workaround_set (snd (check_for_ibs_support e s))"
  by (simp_all add: ibs_init_flat [OF refl refl refl refl refl refl refl refl refl refl refl]
      err_metadata_def out_buffers_def out_chrdev_def out_class_def out_device_def
      flags_steps create_handles_loop_flags init_devices_loop_flags)

text \<open>
  The defect of C2 does not depend on the example: whenever the prober, both
  allocations and every buffer setup succeed and the kernel refuses the device number,
  \<open>ibs_init\<close> unwinds and returns 0.
\<close>

lemma chrdev_failure_in_general:
  assumes chk: "fst (check_for_ibs_support e s) = 0"
    and op: "alloc_percpu_ret e IBS_OP \<noteq> None" and fetch: "alloc_percpu_ret e IBS_FETCH \<noteq> None"
    and ws: "init_workaround_structs_ret e = 0"
    and bufs: "\<forall>c\<in>set (possible_cpus e).
                 setup_ibs_buffer_ret e IBS_OP c = 0 \<and> setup_ibs_buffer_ret e IBS_FETCH c = 0"
    and chrdev: "register_chrdev_ret e <s 0"
  shows "fst (ibs_init e s) = 0
       \<and> buffers (snd (ibs_init e s)) = buffers s - {(f, c). c \<in> set (possible_cpus e)}
       \<and> pcpu_op_dev (snd (ibs_init e s)) = None
       \<and> pcpu_fetch_dev (snd (ibs_init e s)) = None"
proof -
  define r0 where "r0 = check_for_ibs_support e s"
  define s3 where "s3 = (snd (alloc_percpu e IBS_OP (snd r0)))
                \<lparr>pcpu_op_dev := fst (alloc_percpu e IBS_OP (snd r0))\<rparr>"
  define s5 where "s5 = (snd (alloc_percpu e IBS_FETCH s3))
                \<lparr>pcpu_fetch_dev := fst (alloc_percpu e IBS_FETCH s3)\<rparr>"
  define r6 where "r6 = init_workaround_structs e s5"
  define r7 where "r7 = init_devices_loop e (possible_cpus e) (fst r0) (snd r6)"
  define s9 where "s9 = (snd (register_chrdev e (snd (snd r7))))
                \<lparr>ibs_major := fst (register_chrdev e (snd (snd r7)))\<rparr>"
  have r0: "fst r0 = 0" "\<not> fst r0 <s 0"
    using chk by (simp_all add: r0_def)
  have a3: "pcpu_op_dev s3 \<noteq> None"
    using op by (simp add: s3_def alloc_percpu_def)
  have a5: "pcpu_fetch_dev s5 \<noteq> None"
    using fetch by (simp add: s5_def alloc_percpu_def)
  have a6: "fst r6 = 0"
    using ws by (simp add: r6_def init_workaround_structs_def)
  have a7: "fst r7"
    unfolding r7_def using bufs by (rule init_devices_loop_done)
  then have e7: "fst (snd r7) = 0"
    unfolding r7_def r0(1) by (rule init_devices_loop_err)
  have a9: "ibs_major s9 <s 0"
    using chrdev by (simp add: s9_def register_chrdev_def)
  have eq: "ibs_init e s = out_buffers e (fst (snd r7)) s9"
    using r0(2) a3 a5 a6 a7 a9
    by (auto simp add: ibs_init_flat [OF r0_def s3_def s5_def r6_def r7_def s9_def refl refl refl
          refl refl])
  have b6: "buffers (snd r6) = buffers s"
    by (simp add: r6_def s5_def s3_def r0_def prim_defs check_for_ibs_support_frame)
  have b9: "buffers s9 = buffers (snd (snd r7))"
    by (simp add: s9_def prim_defs)
  have "buffers s \<subseteq> buffers s9 \<and> buffers s9 \<subseteq> buffers s \<union> {(f, c). c \<in> set (possible_cpus e)}"
    using init_devices_loop_buffers [of "snd r6" e "possible_cpus e" "fst r0"]
    by (simp add: b9 r7_def b6)
  then have "buffers s9 - {(f, c). c \<in> set (possible_cpus e)}
      = buffers s - {(f, c). c \<in> set (possible_cpus e)}"
    by auto
  then show ?thesis
    by (simp add: eq e7 out_buffers_def free_buffers_loop_eq free_percpu_def log_event_def)
qed

subsection \<open>C8: what device initialisation records\<close>

text \<open>
  C8. For every core identifier, \<open>init_ibs_op_dev\<close> and \<open>init_ibs_fetch_dev\<close> leave a
  device that records this core and its flavor, whose entry size is the size of the
  sample record of its flavor (\<open>sizeof(struct ibs_op)\<close>, \<open>sizeof(struct ibs_fetch)\<close>:
  the two entry sizes differ when these sizes do), whose in-use flag is 0, and whose
  eight capability flags and three workaround flags are copies of the process-wide
  ones. In \<open>ibs_init\<close> these are the values the prober computed: whenever the storage
  of a flavor, absent before, exists after \<open>ibs_init\<close>, the device of every possible
  core in it is initialised in this way with respect to the state the prober left.
\<close>

theorem device_initialisation:
  "cpu (init_ibs_op_dev e s dev c) = c
   \<and> dev_flavor (init_ibs_op_dev e s dev c) = IBS_OP
   \<and> entry_size (init_ibs_op_dev e s dev c) = sizeof_ibs_op e
   \<and> in_use (init_ibs_op_dev e s dev c) = 0
   \<and> dev_capability_set (init_ibs_op_dev e s dev c) = capability_set s
   \<and> dev_workaround_set (init_ibs_op_dev e s dev c) = workaround_set s
   \<and> cpu (init_ibs_fetch_dev e s dev' c) = c
   \<and> dev_flavor (init_ibs_fetch_dev e s dev' c) = IBS_FETCH
   \<and> entry_size (init_ibs_fetch_dev e s dev' c) = sizeof_ibs_fetch e
   \<and> in_use (init_ibs_fetch_dev e s dev' c) = 0
   \<and> dev_capability_set (init_ibs_fetch_dev e s dev' c) = capability_set s
   \<and> dev_workaround_set (init_ibs_fetch_dev e s dev' c) = workaround_set s
   \<and> (sizeof_ibs_op e \<noteq> sizeof_ibs_fetch e \<longrightarrow>
        entry_size (init_ibs_op_dev e s dev c) \<noteq> entry_size (init_ibs_fetch_dev e s dev' c))
   \<and> (\<forall>f. pcpu_dev f s = None \<and> pcpu_dev f (snd (ibs_init e s)) \<noteq> None
            \<and> c \<in> set (possible_cpus e) \<longrightarrow>
        (\<exists>st. pcpu_dev f (snd (ibs_init e s)) = Some st
           \<and> dev_initialised e (snd (check_for_ibs_support e s)) f c (st c)))"
proof -
  have "\<exists>st. pcpu_dev f (snd (ibs_init e s)) = Some st
           \<and> dev_initialised e (snd (check_for_ibs_support e s)) f c (st c)"
    if "pcpu_dev f s = None" "pcpu_dev f (snd (ibs_init e s)) \<noteq> None"
      "c \<in> set (possible_cpus e)" for f
  proof -
    from that have "dev_ready e f c (snd (ibs_init e s))"
      by (rule ibs_init_devices_ready)
    then obtain st where st: "pcpu_dev f (snd (ibs_init e s)) = Some st"
      "dev_initialised e (snd (ibs_init e s)) f c (st c)"
      by (auto simp add: dev_ready_def split: option.splits)
    have "dev_initialised e (snd (ibs_init e s)) f c (st c)
        = dev_initialised e (snd (check_for_ibs_support e s)) f c (st c)"
      by (simp add: dev_initialised_def ibs_init_flags)
    with st show ?thesis by blast
  qed
  then show ?thesis
    by (simp add: dev_defs capability_set_def workaround_set_def dev_capability_set_def
        dev_workaround_set_def)
qed

text \<open>
  The op device of core 1 of the loaded Family 15h machine, and the two entry sizes
  for the sample sizes 120 and 80.
\<close>

lemma fam15h_probe_flags:
  "capability_set (snd (check_for_ibs_support fam15h_env module_load_state))
     = [2, 0x1C, 0x20, 0x40, 0x80, 0, 0, 0]"
  "workaround_set (snd (check_for_ibs_support fam15h_env module_load_state)) = [0, 1, 0]"
  by (simp_all add: capability_set_def workaround_set_def probe_defs env_defs const_defs
      module_load_state_def Let_def)

lemma fam15h_loaded_storage:
  "pcpu_dev IBS_OP fam15h_loaded \<noteq> None"
  by (simp add: fam15h_loaded_def eval_defs)

theorem device_initialisation_witness:
  "sizeof_ibs_op fam15h_env \<noteq> sizeof_ibs_fetch fam15h_env
   \<and> entry_size (init_ibs_op_dev fam15h_env fam15h_loaded zeroed_dev 1)
        \<noteq> entry_size (init_ibs_fetch_dev fam15h_env fam15h_loaded zeroed_dev 1)
   \<and> pcpu_dev IBS_OP module_load_state = None
   \<and> pcpu_dev IBS_OP fam15h_loaded \<noteq> None
   \<and> 1 \<in> set (possible_cpus fam15h_env)
   \<and> (\<exists>st. pcpu_op_dev fam15h_loaded = Some st
         \<and> cpu (st 1) = 1 \<and> dev_flavor (st 1) = IBS_OP \<and> entry_size (st 1) = 120
         \<and> in_use (st 1) = 0
         \<and> dev_capability_set (st 1) = [2, 0x1C, 0x20, 0x40, 0x80, 0, 0, 0]
         \<and> dev_workaround_set (st 1) = [0, 1, 0])"
proof -
  note w1 = device_initialisation [where e = fam15h_env and s = fam15h_loaded
      and dev = zeroed_dev and dev' = zeroed_dev and c = 1]
  note w2 = device_initialisation [where e = fam15h_env and s = module_load_state
      and dev = zeroed_dev and dev' = zeroed_dev and c = 1]
  have sz: "sizeof_ibs_op fam15h_env \<noteq> sizeof_ibs_fetch fam15h_env"
    "sizeof_ibs_op fam15h_env = 120"
    by (simp_all add: env_defs)
  have none: "pcpu_dev IBS_OP module_load_state = None"
    by (simp add: module_load_state_def)
  have live: "pcpu_dev IBS_OP (snd (ibs_init fam15h_env module_load_state)) \<noteq> None"
    using fam15h_loaded_storage by (simp add: fam15h_loaded_def)
  have core: "1 \<in> set (possible_cpus fam15h_env)"
    by (simp add: env_defs)
  from w1 sz(1)
  have differ: "entry_size (init_ibs_op_dev fam15h_env fam15h_loaded zeroed_dev 1)
        \<noteq> entry_size (init_ibs_fetch_dev fam15h_env fam15h_loaded zeroed_dev 1)"
    by blast
  from w2 none live core
  obtain st where st: "pcpu_dev IBS_OP (snd (ibs_init fam15h_env module_load_state)) = Some st"
    "dev_initialised fam15h_env (snd (check_for_ibs_support fam15h_env module_load_state))
       IBS_OP 1 (st 1)"
    by blast
  from st(1) have "pcpu_op_dev fam15h_loaded = Some st"
    by (simp add: fam15h_loaded_def)
  moreover from st(2)
  have "cpu (st 1) = 1 \<and> dev_flavor (st 1) = IBS_OP \<and> entry_size (st 1) = 120
         \<and> in_use (st 1) = 0
         \<and> dev_capability_set (st 1) = [2, 0x1C, 0x20, 0x40, 0x80, 0, 0, 0]
         \<and> dev_workaround_set (st 1) = [0, 1, 0]"
    by (simp add: dev_initialised_def fam15h_probe_flags sz(2))
  ultimately show ?thesis
    using sz(1) differ none fam15h_loaded_storage core by blast
qed

end
